theory Spec2Isabelle
  imports
    Complex_Main
    "HOL-Library.Word"
    "HOL-Library.Char_ord"
    "HOL-Library.List_Lexorder"
    "HOL-Library.Multiset"
    "HOL-Library.Sublist"
begin

section \<open>The unseal configuration (vault\_types.go, lines 660--964)\<close>

text \<open>
  Go's \<^verbatim>\<open>uint\<close> is kept as a 64-bit word (its width on the 64-bit targets the
  operator is built for). \<^verbatim>\<open>ToArgs\<close> only compares it with zero and prints it, so
  no arithmetic on it is involved. A pointer field (\<^verbatim>\<open>*bool\<close>, \<^verbatim>\<open>*uint\<close>,
  \<^verbatim>\<open>*GoogleUnsealConfig\<close>, ...) is an \<open>option\<close>: \<open>None\<close> is \<^verbatim>\<open>nil\<close>.
  Field names that occur in two structs carry the struct's name as a prefix.
\<close>

type_synonym uint = "64 word"

record UnsealOptions =
  PreFlightChecks :: "bool option"
  StoreRootToken :: "bool option"
  SecretThreshold :: "uint option"
  SecretShares :: "uint option"

record KubernetesUnsealConfig =
  SecretNamespace :: string
  SecretName :: string

record GoogleUnsealConfig =
  KMSKeyRing :: string
  KMSCryptoKey :: string
  KMSLocation :: string
  KMSProject :: string
  StorageBucket :: string

record AlibabaUnsealConfig =
  Alibaba_KMSRegion :: string
  Alibaba_KMSKeyID :: string
  OSSEndpoint :: string
  OSSBucket :: string
  OSSPrefix :: string

record AzureUnsealConfig =
  KeyVaultName :: string

record AWSUnsealConfig =
  AWS_KMSKeyID :: string
  AWS_KMSRegion :: string
  KMSEncryptionContext :: string
  S3Bucket :: string
  S3Prefix :: string
  S3Region :: string
  S3SSE :: string

record OCIUnsealConfig =
  KeyOCID :: string
  CryptographicEndpoint :: string
  BucketName :: string
  BucketNamespace :: string
  BucketPrefix :: string

record VaultUnsealConfig =
  Address :: string
  UnsealKeysPath :: string
  Role :: string
  AuthPath :: string
  TokenPath :: string
  Token :: string

record HSMUnsealConfig =
  Daemon :: bool
  ModulePath :: string
  SlotID :: uint
  TokenLabel :: string
  Pin :: string
  KeyLabel :: string

record UnsealConfig =
  Options :: UnsealOptions
  Kubernetes :: KubernetesUnsealConfig
  Google :: "GoogleUnsealConfig option"
  Alibaba :: "AlibabaUnsealConfig option"
  Azure :: "AzureUnsealConfig option"
  AWS :: "AWSUnsealConfig option"
  OCI :: "OCIUnsealConfig option"
  Vault :: "VaultUnsealConfig option"
  HSM :: "HSMUnsealConfig option"

text \<open>
  The cluster identity: the two fields of the embedded \<^verbatim>\<open>ObjectMeta\<close> that the
  functions below read.
\<close>

record ObjectMeta =
  Name :: string
  Namespace :: string

subsection \<open>Library functions used by \<^verbatim>\<open>ToArgs\<close>\<close>

text \<open>
  \<^verbatim>\<open>fmt.Sprint\<close> on an unsigned integer prints its decimal digits, without sign or
  leading zeros.
\<close>

fun digitChar :: "nat \<Rightarrow> char" where
  "digitChar d =
     (if d = 0 then CHR ''0'' else if d = 1 then CHR ''1'' else if d = 2 then CHR ''2''
      else if d = 3 then CHR ''3'' else if d = 4 then CHR ''4'' else if d = 5 then CHR ''5''
      else if d = 6 then CHR ''6'' else if d = 7 then CHR ''7'' else if d = 8 then CHR ''8''
      else CHR ''9'')"

fun SprintNat :: "nat \<Rightarrow> string" where
  "SprintNat n = (if n < 10 then [digitChar n] else SprintNat (n div 10) @ [digitChar (n mod 10)])"

declare SprintNat.simps [simp del]

definition Sprint :: "uint \<Rightarrow> string" where
  "Sprint u = SprintNat (unat u)"

text \<open>\<^verbatim>\<open>strings.Join(elems, sep)\<close>.\<close>

fun Join :: "string list \<Rightarrow> string \<Rightarrow> string" where
  "Join [] sep = []"
| "Join [x] sep = x"
| "Join (x # y # ys) sep = x @ sep @ Join (y # ys) sep"

text \<open>
  \<^verbatim>\<open>sort.Strings\<close> sorts ascending by Go's string comparison, which is bytewise
  lexicographic: the order of \<open>char list\<close> given by \<open>Char_ord\<close> and \<open>List_Lexorder\<close>.
  The result of sorting is the sorted permutation, which \<^const>\<open>sort\<close> computes.
\<close>

definition sortStrings :: "string list \<Rightarrow> string list" where
  "sortStrings xs = sort xs"

subsection \<open>\<^verbatim>\<open>LabelsForVault\<close> and the iteration over a Go map\<close>

text \<open>
  \<^verbatim>\<open>LabelsForVault\<close> returns a map literal with two distinct keys. It is written as the
  list of its entries.
\<close>

definition LabelsForVault :: "'a ObjectMeta_scheme \<Rightarrow> (string \<times> string) list" where
  "LabelsForVault vault = [(''app.kubernetes.io/name'', ''vault''), (''vault_cr'', Name vault)]"

text \<open>
  The order in which \<^verbatim>\<open>range\<close> visits the entries of a Go map is unspecified and
  differs from run to run. The sequence of entries one execution of the loop visits is an
  argument of the model; it is a possible sequence for a map exactly when it is a
  permutation of the map's entries.
\<close>

definition rangeOrder :: "('k \<times> 'v) list \<Rightarrow> ('k \<times> 'v) list \<Rightarrow> bool" where
  "rangeOrder m visited = (mset visited = mset m)"

text \<open>
  The loop \<^verbatim>\<open>for k, v := range ... { secretLabels = append(secretLabels, k+"="+v) }\<close>,
  on the visited sequence.
\<close>

fun appendLabels :: "string list \<Rightarrow> (string \<times> string) list \<Rightarrow> string list" where
  "appendLabels secretLabels [] = secretLabels"
| "appendLabels secretLabels ((k, v) # rest) = appendLabels (secretLabels @ [k @ ''='' @ v]) rest"

subsection \<open>\<^verbatim>\<open>UnsealConfig.ToArgs\<close> (lines 682--887)\<close>

text \<open>
  The function is transcribed statement by statement: \<open>args\<close> is rebound by each
  \<^verbatim>\<open>append\<close>, and the \<^verbatim>\<open>if ... else if\<close> chain over the backend pointers keeps the
  order of the source. The last argument is the sequence in which the \<^verbatim>\<open>range\<close> over
  \<^verbatim>\<open>vault.LabelsForVault()\<close> visits the labels.
\<close>

definition ToArgs :: "UnsealConfig \<Rightarrow> 'a ObjectMeta_scheme \<Rightarrow> (string \<times> string) list \<Rightarrow> string list" where
  "ToArgs usc vault visited =
    (let args = [];
         args = (if (case PreFlightChecks (Options usc) of None \<Rightarrow> False | Some b \<Rightarrow> \<not> b)
                 then args @ [''--pre-flight-checks=false''] else args);
         args = (if (case StoreRootToken (Options usc) of None \<Rightarrow> False | Some b \<Rightarrow> \<not> b)
                 then args @ [''--store-root-token=false''] else args);
         args = (if (case SecretShares (Options usc) of None \<Rightarrow> False | Some n \<Rightarrow> n > 0)
                 then args @ [''--secret-shares'', Sprint (the (SecretShares (Options usc)))]
                 else args);
         args = (if (case SecretThreshold (Options usc) of None \<Rightarrow> False | Some n \<Rightarrow> n > 0)
                 then args @ [''--secret-threshold'', Sprint (the (SecretThreshold (Options usc)))]
                 else args)
     in
       case Google usc of
         Some google \<Rightarrow>
           args @ [''--mode'', ''google-cloud-kms-gcs'',
                   ''--google-cloud-kms-key-ring'', KMSKeyRing google,
                   ''--google-cloud-kms-crypto-key'', KMSCryptoKey google,
                   ''--google-cloud-kms-location'', KMSLocation google,
                   ''--google-cloud-kms-project'', KMSProject google,
                   ''--google-cloud-storage-bucket'', StorageBucket google]
       | None \<Rightarrow>
      (case Azure usc of
         Some azure \<Rightarrow>
           args @ [''--mode'', ''azure-key-vault'',
                   ''--azure-key-vault-name'', KeyVaultName azure]
       | None \<Rightarrow>
      (case OCI usc of
         Some oci \<Rightarrow>
           args @ [''--mode'', ''oci'',
                   ''--oci-key-ocid'', KeyOCID oci,
                   ''--oci-cryptographic-endpoint'', CryptographicEndpoint oci,
                   ''--oci-bucket-namespace'', BucketNamespace oci,
                   ''--oci-bucket-name'', BucketName oci,
                   ''--oci-bucket-prefix'', BucketPrefix oci]
       | None \<Rightarrow>
      (case AWS usc of
         Some aws \<Rightarrow>
           (let args = args @ [''--mode'', ''aws-kms-s3'',
                               ''--aws-kms-key-id'', AWS_KMSKeyID aws,
                               ''--aws-kms-region'', AWS_KMSRegion aws,
                               ''--aws-s3-bucket'', S3Bucket aws,
                               ''--aws-s3-prefix'', S3Prefix aws,
                               ''--aws-s3-region'', S3Region aws,
                               ''--aws-s3-sse-algo'', S3SSE aws]
            in if KMSEncryptionContext aws \<noteq> ''''
               then args @ [''--aws-kms-encryption-context'', KMSEncryptionContext aws]
               else args)
       | None \<Rightarrow>
      (case Alibaba usc of
         Some alibaba \<Rightarrow>
           args @ [''--mode'', ''alibaba-kms-oss'',
                   ''--alibaba-kms-region'', Alibaba_KMSRegion alibaba,
                   ''--alibaba-kms-key-id'', Alibaba_KMSKeyID alibaba,
                   ''--alibaba-oss-endpoint'', OSSEndpoint alibaba,
                   ''--alibaba-oss-bucket'', OSSBucket alibaba,
                   ''--alibaba-oss-prefix'', OSSPrefix alibaba]
       | None \<Rightarrow>
      (case Vault usc of
         Some vlt \<Rightarrow>
           (let args = args @ [''--mode'', ''vault'',
                               ''--vault-addr'', Address vlt,
                               ''--vault-unseal-keys-path'', UnsealKeysPath vlt]
            in if Token vlt \<noteq> '''' then args @ [''--vault-token'', Token vlt]
               else if TokenPath vlt \<noteq> '''' then args @ [''--vault-token-path'', TokenPath vlt]
               else if Role vlt \<noteq> ''''
                 then args @ [''--vault-role'', Role vlt, ''--vault-auth-path'', AuthPath vlt]
               else args)
       | None \<Rightarrow>
      (case HSM usc of
         Some hsm \<Rightarrow>
           (let mode = ''hsm'';
                mode = (if SecretNamespace (Kubernetes usc) \<noteq> '''' \<and> SecretName (Kubernetes usc) \<noteq> ''''
                        then ''hsm-k8s'' else mode);
                args = args @ [''--mode'', mode,
                               ''--hsm-module-path'', ModulePath hsm,
                               ''--hsm-slot-id'', Sprint (SlotID hsm),
                               ''--hsm-key-label'', KeyLabel hsm];
                args = (if Pin hsm \<noteq> '''' then args @ [''--hsm-pin'', Pin hsm] else args);
                args = (if TokenLabel hsm \<noteq> ''''
                        then args @ [''--hsm-token-label'', TokenLabel hsm] else args)
            in if mode = ''hsm-k8s''
               then (let secretLabels = appendLabels [] visited;
                         secretLabels = sortStrings secretLabels
                     in args @ [''--k8s-secret-namespace'', SecretNamespace (Kubernetes usc),
                                ''--k8s-secret-name'', SecretName (Kubernetes usc),
                                ''--k8s-secret-labels'', Join secretLabels '',''])
               else args)
       | None \<Rightarrow>
           (let secretNamespace = Namespace vault;
                secretNamespace = (if SecretNamespace (Kubernetes usc) \<noteq> ''''
                                   then SecretNamespace (Kubernetes usc) else secretNamespace);
                secretName = Name vault @ ''-unseal-keys'';
                secretName = (if SecretName (Kubernetes usc) \<noteq> ''''
                              then SecretName (Kubernetes usc) else secretName);
                secretLabels = appendLabels [] visited;
                secretLabels = sortStrings secretLabels
            in args @ [''--mode'', ''k8s'',
                       ''--k8s-secret-namespace'', secretNamespace,
                       ''--k8s-secret-name'', secretName,
                       ''--k8s-secret-labels'', Join secretLabels '','']))))))))"

section \<open>The configuration document\<close>

text \<open>
  \<^verbatim>\<open>VaultSpec.Config\<close> holds raw JSON bytes. \<^verbatim>\<open>json.Unmarshal\<close> into
  \<^verbatim>\<open>map[string]interface{}\<close> produces values of six dynamic types: \<^verbatim>\<open>nil\<close>,
  \<^verbatim>\<open>bool\<close>, \<^verbatim>\<open>float64\<close>, \<^verbatim>\<open>string\<close>, \<^verbatim>\<open>[]interface{}\<close> and
  \<^verbatim>\<open>map[string]interface{}\<close>. A number is the \<^verbatim>\<open>float64\<close> the decoder has
  produced, kept as the rational it equals. A Go map is the list of its entries; its keys
  are distinct.
\<close>

datatype json =
    JNull
  | JBool bool
  | JNumber rat
  | JString string
  | JArray "json list"
  | JObject "(string \<times> json) list"

type_synonym object = "(string \<times> json) list"

text \<open>
  \<^verbatim>\<open>m[key]\<close> on a \<^verbatim>\<open>map[string]interface{}\<close>: a missing key reads as the \<^verbatim>\<open>nil\<close>
  interface, which is also what a stored JSON \<^verbatim>\<open>null\<close> reads as.
\<close>

definition index :: "object \<Rightarrow> string \<Rightarrow> json" where
  "index m key = (case map_of m key of None \<Rightarrow> JNull | Some v \<Rightarrow> v)"

text \<open>
  \<^verbatim>\<open>cast.ToStringMap\<close> (github.com/spf13/cast): a \<^verbatim>\<open>map[string]interface{}\<close> is
  returned as it is, a string is decoded as JSON into a map, and anything else is an error,
  for which the caller gets the empty map. The decoding of a string is not part of this
  repository; it is the parameter \<open>jsonStringToObject\<close>, which gives the map a string
  decodes to and the empty map when it does not decode to one.
\<close>

definition ToStringMap :: "(string \<Rightarrow> object) \<Rightarrow> json \<Rightarrow> object" where
  "ToStringMap jsonStringToObject i =
     (case i of
        JObject m \<Rightarrow> m
      | JString s \<Rightarrow> jsonStringToObject s
      | _ \<Rightarrow> [])"

text \<open>
  \<^verbatim>\<open>cast.ToBool\<close>: a bool is itself, \<^verbatim>\<open>nil\<close> is false, a number is true when it is
  not zero, a string goes through \<^verbatim>\<open>strconv.ParseBool\<close>, and any other value is an
  error, for which the caller gets false. A number of the document arrives as a
  \<^verbatim>\<open>float64\<close>; the numeric case is that of the releases of the library that convert
  it (early releases had a case for \<^verbatim>\<open>int\<close> only and gave an error on it).
\<close>

definition ParseBool :: "string \<Rightarrow> bool" where
  "ParseBool s = (s \<in> set [''1'', ''t'', ''T'', ''TRUE'', ''true'', ''True''])"

definition ToBool :: "json \<Rightarrow> bool" where
  "ToBool i =
     (case i of
        JBool b \<Rightarrow> b
      | JNull \<Rightarrow> False
      | JNumber n \<Rightarrow> n \<noteq> 0
      | JString s \<Rightarrow> ParseBool s
      | _ \<Rightarrow> False)"

text \<open>
  \<^verbatim>\<open>reflect.ValueOf(m).MapKeys()\<close> returns the keys in an unspecified order, which may
  differ between two calls on the same map. The callers read \<^verbatim>\<open>keys[0]\<close> only, and any
  key can come first: the first argument says how far the entry list is rotated on this
  call, so that every key is the first one for some value of it.
\<close>

definition MapKeys :: "nat \<Rightarrow> object \<Rightarrow> string list" where
  "MapKeys order m = rotate order (map fst m)"

subsection \<open>\<^verbatim>\<open>VaultSpec\<close> and \<^verbatim>\<open>Vault\<close>\<close>

text \<open>
  The Kubernetes API types that the functions below touch, with the fields they read or
  write; the element types of lists that are only measured are left abstract.
\<close>

typedecl IngressRule
typedecl IngressTLS
typedecl TypedLocalObjectReference

record ServiceBackendPort =
  Port_Name :: string
  Number :: "32 word"

record IngressServiceBackend =
  Service_Name :: string
  Port :: ServiceBackendPort

record IngressBackend =
  Service :: "IngressServiceBackend option"
  Resource :: "TypedLocalObjectReference option"

record IngressSpec =
  IngressClassName :: "string option"
  DefaultBackend :: "IngressBackend option"
  TLS :: "IngressTLS list"
  Rules :: "IngressRule list"

record Ingress =
  Annotations :: "(string \<rightharpoonup> string) option"
  Ingress_Spec :: IngressSpec

text \<open>
  The raw bytes of \<^verbatim>\<open>Config.Raw\<close> are kept as what \<^verbatim>\<open>json.Unmarshal\<close> makes of
  them. \<open>Malformed\<close> stands for bytes that are not JSON. \<open>Decodes v outOfRange\<close> stands
  for JSON text: \<open>v\<close> is the value the decoder builds from it, in which every number is
  the \<^verbatim>\<open>float64\<close> nearest to the number written and a number written outside the range
  of \<^verbatim>\<open>float64\<close> is \<^verbatim>\<open>nil\<close>, and \<open>outOfRange\<close> says whether the text holds such a
  number. The decoder goes on after a number out of range and reports it at the end.
\<close>

datatype RawJSON = Malformed | Decodes json bool

datatype configError = SyntaxError | UnmarshalTypeError

text \<open>
  \<^verbatim>\<open>json.Unmarshal(data, &target)\<close> for a target of type
  \<^verbatim>\<open>map[string]interface{}\<close>, as a function from the data and the target before the call
  to the target after the call and the error. Bytes that are not JSON and a JSON value
  that is neither an object nor \<^verbatim>\<open>null\<close> leave the target as it was and are an error;
  \<^verbatim>\<open>null\<close> sets the target to \<^verbatim>\<open>nil\<close>; an object is stored, and the error is
  \<^verbatim>\<open>*json.UnmarshalTypeError\<close> when a number of it was out of range. Both callers pass
  a target without entries, so an object decoded is the whole target afterwards.
\<close>

definition Unmarshal :: "RawJSON \<Rightarrow> object option \<Rightarrow> object option \<times> configError option" where
  "Unmarshal data target =
     (case data of
        Malformed \<Rightarrow> (target, Some SyntaxError)
      | Decodes JNull outOfRange \<Rightarrow> (None, None)
      | Decodes (JObject m) outOfRange \<Rightarrow>
          (Some m, if outOfRange then Some UnmarshalTypeError else None)
      | Decodes _ outOfRange \<Rightarrow> (target, Some UnmarshalTypeError))"

text \<open>The fields of \<^verbatim>\<open>VaultSpec\<close> read by the functions modelled here.\<close>

record VaultSpec =
  Image :: string
  Config :: RawJSON
  ServiceRegistrationEnabled :: bool
  Ingress :: "Ingress option"
  TLSExpiryThreshold :: string

record Vault = ObjectMeta +
  Spec :: VaultSpec

subsection \<open>Stanzas and the HA verdict (lines 328--426)\<close>

definition HAStorageTypes :: "(string \<times> bool) list" where
  "HAStorageTypes =
     [(''consul'', True), (''dynamodb'', True), (''etcd'', True), (''gcs'', True),
      (''mysql'', True), (''postgresql'', True), (''raft'', True), (''oci'', True),
      (''spanner'', True), (''zookeeper'', True)]"

text \<open>
  \<^verbatim>\<open>GetVaultConfig\<close> decodes into a \<^verbatim>\<open>nil\<close> map and ignores the error of
  \<^verbatim>\<open>json.Unmarshal\<close>. A map that is still \<^verbatim>\<open>nil\<close> afterwards reads as the empty
  map.
\<close>

definition GetVaultConfig :: "VaultSpec \<Rightarrow> object" where
  "GetVaultConfig spec =
     (let (config, err) = Unmarshal (Config spec) None
      in case config of None \<Rightarrow> [] | Some m \<Rightarrow> m)"

definition getStorage :: "(string \<Rightarrow> object) \<Rightarrow> VaultSpec \<Rightarrow> object" where
  "getStorage j2o spec = (let config = GetVaultConfig spec in ToStringMap j2o (index config ''storage''))"

definition getHAStorage :: "(string \<Rightarrow> object) \<Rightarrow> VaultSpec \<Rightarrow> object" where
  "getHAStorage j2o spec =
     (let config = GetVaultConfig spec in ToStringMap j2o (index config ''ha_storage''))"

definition getListener :: "(string \<Rightarrow> object) \<Rightarrow> VaultSpec \<Rightarrow> object" where
  "getListener j2o spec =
     (let config = GetVaultConfig spec in ToStringMap j2o (index config ''listener''))"

definition hasHAStorageStanza :: "(string \<Rightarrow> object) \<Rightarrow> VaultSpec \<Rightarrow> bool" where
  "hasHAStorageStanza j2o spec = (length (getHAStorage j2o spec) \<noteq> 0)"

definition GetStorageType :: "(string \<Rightarrow> object) \<Rightarrow> nat \<Rightarrow> VaultSpec \<Rightarrow> string" where
  "GetStorageType j2o order spec =
     (let storage = getStorage j2o spec;
          keys = MapKeys order storage
      in if length keys = 0 then '''' else keys ! 0)"

definition HasStorageHAEnabled :: "(string \<Rightarrow> object) \<Rightarrow> nat \<Rightarrow> VaultSpec \<Rightarrow> bool" where
  "HasStorageHAEnabled j2o order spec =
     (let storageType = GetStorageType j2o order spec;
          storage = getStorage j2o spec;
          storageSpecs = ToStringMap j2o (index storage storageType)
      in storageType = ''consul'' \<or> storageType = ''raft'' \<or> ToBool (index storageSpecs ''ha_enabled''))"

text \<open>
  \<^verbatim>\<open>HasHAStorage\<close> asks for the storage type itself and again inside
  \<^verbatim>\<open>HasStorageHAEnabled\<close>; the two calls of \<^verbatim>\<open>MapKeys\<close> have an order each.
\<close>

definition HasHAStorage :: "(string \<Rightarrow> object) \<Rightarrow> nat \<Rightarrow> nat \<Rightarrow> VaultSpec \<Rightarrow> bool" where
  "HasHAStorage j2o order1 order2 spec =
     (let storageType = GetStorageType j2o order1 spec
      in if map_of HAStorageTypes storageType \<noteq> None \<and> HasStorageHAEnabled j2o order2 spec
         then True
         else if hasHAStorageStanza j2o spec then True
         else False)"

definition IsTLSDisabled :: "(string \<Rightarrow> object) \<Rightarrow> VaultSpec \<Rightarrow> bool" where
  "IsTLSDisabled j2o spec =
     (let listener = getListener j2o spec;
          tcp = ToStringMap j2o (index listener ''tcp'')
      in ToBool (index tcp ''tls_disable''))"

subsection \<open>\<^verbatim>\<open>mergo.Merge\<close> as \<^verbatim>\<open>ConfigJSON\<close> calls it\<close>

text \<open>
  \<^verbatim>\<open>ConfigJSON\<close> merges a literal made of nested maps with one string at the bottom into
  the decoded document: \<^verbatim>\<open>mergo.Merge(&config, serviceRegistration)\<close>, without options
  (github.com/imdario/mergo). The source value has the shapes below only.
\<close>

datatype fragment =
    FString string
  | FMap "(string \<times> fragment) list"

fun embed :: "fragment \<Rightarrow> json" where
  "embed (FString s) = JString s"
| "embed (FMap m) = JObject (map (\<lambda>(k, f). (k, embed f)) m)"

text \<open>
  mergo's \<^verbatim>\<open>isEmptyValue\<close> on a value held in an interface: the \<^verbatim>\<open>nil\<close> interface is
  empty, and otherwise the value inside is looked at; false, zero, the empty string, the
  empty slice and the empty map are empty.
\<close>

fun isEmptyValue :: "json \<Rightarrow> bool" where
  "isEmptyValue JNull = True"
| "isEmptyValue (JBool b) = (\<not> b)"
| "isEmptyValue (JNumber n) = (n = 0)"
| "isEmptyValue (JString s) = (length s = 0)"
| "isEmptyValue (JArray xs) = (length xs = 0)"
| "isEmptyValue (JObject m) = (length m = 0)"

text \<open>\<^verbatim>\<open>dst[key] = v\<close> on a Go map: the entry is replaced, or added when the key is new.\<close>

fun setMapIndex :: "object \<Rightarrow> string \<Rightarrow> json \<Rightarrow> object" where
  "setMapIndex [] key v = [(key, v)]"
| "setMapIndex ((k, w) # m) key v = (if k = key then (k, v) # m else (k, w) # setMapIndex m key v)"

text \<open>
  mergo's \<^verbatim>\<open>deepMerge\<close> for a destination of kind map, without the overwrite option. For
  every key of the source: when the source element is a map and the destination element
  is a map too, the source element is merged into the destination element, in place;
  afterwards the source element is stored under the key when the destination has no such
  key or holds an empty value under it (mergo's condition
  \<^verbatim>\<open>!dstElement.IsValid() || isEmptyValue(dstElement)\<close>), and the destination is
  left as it is otherwise.
  No step of it returns an error. The source keys are distinct and each touches its own
  key of the destination, so the order in which they are visited does not matter; they are
  taken in the order of the list.
\<close>

function deepMerge :: "object \<Rightarrow> (string \<times> fragment) list \<Rightarrow> object" where
  "deepMerge dst [] = dst"
| "deepMerge dst ((key, FString s) # src) =
     deepMerge
       (case map_of dst key of
          None \<Rightarrow> setMapIndex dst key (JString s)
        | Some dstElement \<Rightarrow>
            if isEmptyValue dstElement then setMapIndex dst key (JString s) else dst)
       src"
| "deepMerge dst ((key, FMap srcMap) # src) =
     deepMerge
       (case map_of dst key of
          None \<Rightarrow> setMapIndex dst key (embed (FMap srcMap))
        | Some (JObject dstMap) \<Rightarrow>
            (let merged = deepMerge dstMap srcMap
             in if isEmptyValue (JObject merged) then setMapIndex dst key (embed (FMap srcMap))
                else setMapIndex dst key (JObject merged))
        | Some dstElement \<Rightarrow>
            if isEmptyValue dstElement then setMapIndex dst key (embed (FMap srcMap)) else dst)
       src"
  by pat_completeness auto
termination
  by (relation "measure (\<lambda>(dst, src). size (FMap src))") auto

subsection \<open>\<^verbatim>\<open>Vault.ConfigJSON\<close> (lines 1002--1030)\<close>

text \<open>
  \<^verbatim>\<open>ConfigJSON\<close> decodes into an empty map and returns the error of
  \<^verbatim>\<open>json.Unmarshal\<close> when there is one. \<^verbatim>\<open>mergo.Merge\<close> makes a \<^verbatim>\<open>nil\<close>
  destination map before it merges. The result of \<^verbatim>\<open>json.Marshal\<close> is kept as the
  document the bytes encode; a \<^verbatim>\<open>nil\<close> map encodes as \<^verbatim>\<open>null\<close>.
\<close>

definition marshalMap :: "object option \<Rightarrow> json" where
  "marshalMap config = (case config of None \<Rightarrow> JNull | Some m \<Rightarrow> JObject m)"

definition Merge :: "object option \<Rightarrow> (string \<times> fragment) list \<Rightarrow> object option" where
  "Merge dst src = Some (deepMerge (case dst of None \<Rightarrow> [] | Some m \<Rightarrow> m) src)"

definition serviceRegistration :: "string \<Rightarrow> (string \<times> fragment) list" where
  "serviceRegistration namespace =
     [(''service_registration'', FMap [(''kubernetes'', FMap [(''namespace'', FString namespace)])])]"

definition ConfigJSON :: "(string \<Rightarrow> object) \<Rightarrow> nat \<Rightarrow> nat \<Rightarrow> Vault \<Rightarrow> configError + json" where
  "ConfigJSON j2o order1 order2 vault =
     (let (config, err) = Unmarshal (Config (Spec vault)) (Some [])
      in case err of
           Some e \<Rightarrow> Inl e
         | None \<Rightarrow>
             (let config =
                (if ServiceRegistrationEnabled (Spec vault) \<and>
                    HasHAStorage j2o order1 order2 (Spec vault)
                 then Merge config (serviceRegistration (Namespace vault))
                 else config)
              in Inr (marshalMap config)))"

subsection \<open>\<^verbatim>\<open>Vault.GetIngress\<close> (lines 1033--1070)\<close>

text \<open>
  The function writes through the pointer \<^verbatim>\<open>vault.Spec.Ingress\<close> and returns that
  pointer: the model returns the ingress together with the updated resource.
\<close>

definition GetIngress :: "(string \<Rightarrow> object) \<Rightarrow> Vault \<Rightarrow> Ingress option \<times> Vault" where
  "GetIngress j2o vault =
     (case Ingress (Spec vault) of
        Some ingress \<Rightarrow>
          (let ingress =
                 (if length (Rules (Ingress_Spec ingress)) = 0 \<and>
                     DefaultBackend (Ingress_Spec ingress) = None
                  then ingress\<lparr>Ingress_Spec := (Ingress_Spec ingress)
                         \<lparr>DefaultBackend := Some
                            \<lparr>Service = Some \<lparr>Service_Name = Name vault,
                                              Port = \<lparr>Port_Name = '''', Number = 8200\<rparr>\<rparr>,
                             Resource = None\<rparr>\<rparr>\<rparr>
                  else ingress);
               ingress =
                 (if Annotations ingress = None then ingress\<lparr>Annotations := Some Map.empty\<rparr>
                  else ingress);
               ingress =
                 (if \<not> IsTLSDisabled j2o (Spec vault)
                  then ingress\<lparr>Annotations := Some
                         ((the (Annotations ingress))
                            (''nginx.ingress.kubernetes.io/backend-protocol'' \<mapsto> ''HTTPS'',
                             ''ingress.kubernetes.io/protocol'' \<mapsto> ''https'',
                             ''ingress.kubernetes.io/secure-backends'' \<mapsto> ''true''))\<rparr>
                  else ingress)
           in (Some ingress, vault\<lparr>Spec := (Spec vault)\<lparr>Ingress := Some ingress\<rparr>\<rparr>))
      | None \<Rightarrow> (None, vault))"

subsection \<open>\<^verbatim>\<open>VaultSpec.GetVersion\<close> (lines 397--409)\<close>



text \<open>\<^verbatim>\<open>semver.Version\<close> (github.com/Masterminds/semver/v3).\<close>

record Version =
  major :: "64 word"
  minor :: "64 word"
  patch :: "64 word"
  pre :: string
  metadata :: string
  original :: string



subsection \<open>\<^verbatim>\<open>VaultSpec.GetTLSExpiryThreshold\<close> (lines 452--462)\<close>

text \<open>
  \<^verbatim>\<open>time.Duration\<close> is an \<^verbatim>\<open>int64\<close> count of nanoseconds. \<^verbatim>\<open>time.ParseDuration\<close> is
  a parameter: it maps a string to its error message or to the duration. The call of
  \<^verbatim>\<open>log.Error\<close> is the one effect of the function; the model returns the entries
  written to the log beside the duration.
\<close>

type_synonym Duration = "64 word"

definition Hour :: Duration where
  "Hour = 3600000000000"

record logEntry =
  logError :: string
  logMessage :: string
  logKeysAndValues :: "string list"

definition GetTLSExpiryThreshold ::
  "(string \<Rightarrow> string + Duration) \<Rightarrow> VaultSpec \<Rightarrow> Duration \<times> logEntry list"
where
  "GetTLSExpiryThreshold ParseDuration spec =
     (if TLSExpiryThreshold spec = '''' then (Hour * 168, [])
      else
        (case ParseDuration (TLSExpiryThreshold spec) of
           Inl err \<Rightarrow>
             (Hour * 168,
              [\<lparr>logError = err,
                logMessage = ''using default threshold due to parse error'',
                logKeysAndValues = [''tlsExpiryThreshold'', TLSExpiryThreshold spec]\<rparr>])
         | Inr duration \<Rightarrow> (duration, [])))"

section \<open>The argument contract in the words of the specification\<close>

text \<open>
  The specification describes the output of \<^verbatim>\<open>ToArgs\<close> as the flags of the
  cross-cutting options followed by the contribution of the one selected backend. The
  definitions of this section follow that description; \<^verbatim>\<open>ToArgs\<close> above is compared
  with them.

  The cross-cutting options: each contributes its own flag, independent of the backend.
\<close>

definition optionArgs :: "UnsealOptions \<Rightarrow> string list" where
  "optionArgs opts =
     (case PreFlightChecks opts of Some False \<Rightarrow> [''--pre-flight-checks=false''] | _ \<Rightarrow> [])
   @ (case StoreRootToken opts of Some False \<Rightarrow> [''--store-root-token=false''] | _ \<Rightarrow> [])
   @ (case SecretShares opts of
        Some n \<Rightarrow> if n > 0 then [''--secret-shares'', Sprint n] else []
      | None \<Rightarrow> [])
   @ (case SecretThreshold opts of
        Some n \<Rightarrow> if n > 0 then [''--secret-threshold'', Sprint n] else []
      | None \<Rightarrow> [])"

text \<open>
  The unseal configuration as a tagged choice among the eight variants, and the selection
  by fixed priority: the first variant that is set, in the order Google, Azure, Oracle,
  AWS, Alibaba, remote Vault, HSM, and the Kubernetes secret when none is.
\<close>

datatype Backend =
    GoogleBackend GoogleUnsealConfig
  | AzureBackend AzureUnsealConfig
  | OCIBackend OCIUnsealConfig
  | AWSBackend AWSUnsealConfig
  | AlibabaBackend AlibabaUnsealConfig
  | VaultBackend VaultUnsealConfig
  | HSMBackend HSMUnsealConfig
  | KubernetesBackend

fun firstMatch :: "'a option list \<Rightarrow> 'a option" where
  "firstMatch [] = None"
| "firstMatch (Some x # rest) = Some x"
| "firstMatch (None # rest) = firstMatch rest"

definition selectBackend :: "UnsealConfig \<Rightarrow> Backend" where
  "selectBackend usc =
     (case firstMatch
        [map_option GoogleBackend (Google usc),
         map_option AzureBackend (Azure usc),
         map_option OCIBackend (OCI usc),
         map_option AWSBackend (AWS usc),
         map_option AlibabaBackend (Alibaba usc),
         map_option VaultBackend (Vault usc),
         map_option HSMBackend (HSM usc)] of
        Some b \<Rightarrow> b
      | None \<Rightarrow> KubernetesBackend)"

text \<open>The label selector: the \<open>key=value\<close> entries, sorted, joined with commas.\<close>

definition secretLabelsArg :: "(string \<times> string) list \<Rightarrow> string" where
  "secretLabelsArg visited = Join (sortStrings (appendLabels [] visited)) '',''"

text \<open>
  The credential of the remote-Vault variant: a literal token first, else a token-file
  path, else a role with its auth path; none when all three are empty.
\<close>

datatype VaultCredential =
    LiteralToken string
  | TokenFile string
  | RoleAuth string string
  | NoCredential

definition vaultCredential :: "VaultUnsealConfig \<Rightarrow> VaultCredential" where
  "vaultCredential vlt =
     (if Token vlt \<noteq> '''' then LiteralToken (Token vlt)
      else if TokenPath vlt \<noteq> '''' then TokenFile (TokenPath vlt)
      else if Role vlt \<noteq> '''' then RoleAuth (Role vlt) (AuthPath vlt)
      else NoCredential)"

fun credentialArgs :: "VaultCredential \<Rightarrow> string list" where
  "credentialArgs (LiteralToken t) = [''--vault-token'', t]"
| "credentialArgs (TokenFile p) = [''--vault-token-path'', p]"
| "credentialArgs (RoleAuth r a) = [''--vault-role'', r, ''--vault-auth-path'', a]"
| "credentialArgs NoCredential = []"

text \<open>
  The HSM variant is in \<^verbatim>\<open>hsm-k8s\<close> mode when the Kubernetes secret namespace and name
  are both given.
\<close>

definition hsmK8s :: "KubernetesUnsealConfig \<Rightarrow> bool" where
  "hsmK8s k = (SecretNamespace k \<noteq> '''' \<and> SecretName k \<noteq> '''')"

text \<open>The mode name of each variant, and the flag and value pairs that follow it.\<close>

fun modeName :: "Backend \<Rightarrow> KubernetesUnsealConfig \<Rightarrow> string" where
  "modeName (GoogleBackend c) k = ''google-cloud-kms-gcs''"
| "modeName (AzureBackend c) k = ''azure-key-vault''"
| "modeName (OCIBackend c) k = ''oci''"
| "modeName (AWSBackend c) k = ''aws-kms-s3''"
| "modeName (AlibabaBackend c) k = ''alibaba-kms-oss''"
| "modeName (VaultBackend c) k = ''vault''"
| "modeName (HSMBackend c) k = (if hsmK8s k then ''hsm-k8s'' else ''hsm'')"
| "modeName KubernetesBackend k = ''k8s''"

fun modeFlags ::
  "Backend \<Rightarrow> KubernetesUnsealConfig \<Rightarrow> 'a ObjectMeta_scheme \<Rightarrow> (string \<times> string) list \<Rightarrow> string list"
where
  "modeFlags (GoogleBackend c) k vault visited =
     [''--google-cloud-kms-key-ring'', KMSKeyRing c,
      ''--google-cloud-kms-crypto-key'', KMSCryptoKey c,
      ''--google-cloud-kms-location'', KMSLocation c,
      ''--google-cloud-kms-project'', KMSProject c,
      ''--google-cloud-storage-bucket'', StorageBucket c]"
| "modeFlags (AzureBackend c) k vault visited = [''--azure-key-vault-name'', KeyVaultName c]"
| "modeFlags (OCIBackend c) k vault visited =
     [''--oci-key-ocid'', KeyOCID c,
      ''--oci-cryptographic-endpoint'', CryptographicEndpoint c,
      ''--oci-bucket-namespace'', BucketNamespace c,
      ''--oci-bucket-name'', BucketName c,
      ''--oci-bucket-prefix'', BucketPrefix c]"
| "modeFlags (AWSBackend c) k vault visited =
     [''--aws-kms-key-id'', AWS_KMSKeyID c,
      ''--aws-kms-region'', AWS_KMSRegion c,
      ''--aws-s3-bucket'', S3Bucket c,
      ''--aws-s3-prefix'', S3Prefix c,
      ''--aws-s3-region'', S3Region c,
      ''--aws-s3-sse-algo'', S3SSE c]
     @ (if KMSEncryptionContext c = '''' then []
        else [''--aws-kms-encryption-context'', KMSEncryptionContext c])"
| "modeFlags (AlibabaBackend c) k vault visited =
     [''--alibaba-kms-region'', Alibaba_KMSRegion c,
      ''--alibaba-kms-key-id'', Alibaba_KMSKeyID c,
      ''--alibaba-oss-endpoint'', OSSEndpoint c,
      ''--alibaba-oss-bucket'', OSSBucket c,
      ''--alibaba-oss-prefix'', OSSPrefix c]"
| "modeFlags (VaultBackend c) k vault visited =
     [''--vault-addr'', Address c, ''--vault-unseal-keys-path'', UnsealKeysPath c]
     @ credentialArgs (vaultCredential c)"
| "modeFlags (HSMBackend c) k vault visited =
     [''--hsm-module-path'', ModulePath c,
      ''--hsm-slot-id'', Sprint (SlotID c),
      ''--hsm-key-label'', KeyLabel c]
     @ (if Pin c = '''' then [] else [''--hsm-pin'', Pin c])
     @ (if TokenLabel c = '''' then [] else [''--hsm-token-label'', TokenLabel c])
     @ (if hsmK8s k
        then [''--k8s-secret-namespace'', SecretNamespace k,
              ''--k8s-secret-name'', SecretName k,
              ''--k8s-secret-labels'', secretLabelsArg visited]
        else [])"
| "modeFlags KubernetesBackend k vault visited =
     [''--k8s-secret-namespace'', (if SecretNamespace k = '''' then Namespace vault else SecretNamespace k),
      ''--k8s-secret-name'', (if SecretName k = '''' then Name vault @ ''-unseal-keys'' else SecretName k),
      ''--k8s-secret-labels'', secretLabelsArg visited]"

definition backendArgs ::
  "Backend \<Rightarrow> KubernetesUnsealConfig \<Rightarrow> 'a ObjectMeta_scheme \<Rightarrow> (string \<times> string) list \<Rightarrow> string list"
where
  "backendArgs b k vault visited = [''--mode'', modeName b k] @ modeFlags b k vault visited"

text \<open>
  A backend-specific mode pair in an argument list: the token \<^verbatim>\<open>--mode\<close> directly
  followed by one of the nine mode names. \<open>modePairs\<close> counts them.
\<close>

definition modeNames :: "string list" where
  "modeNames = [''google-cloud-kms-gcs'', ''azure-key-vault'', ''oci'', ''aws-kms-s3'',
                ''alibaba-kms-oss'', ''vault'', ''hsm'', ''hsm-k8s'', ''k8s'']"

fun modePairs :: "string list \<Rightarrow> nat" where
  "modePairs (a # b # rest) =
     (if a = ''--mode'' \<and> b \<in> set modeNames then 1 else 0) + modePairs (b # rest)"
| "modePairs [a] = 0"
| "modePairs [] = 0"

text \<open>The number of credential flags of the remote-Vault variant in an argument list.\<close>

definition credentialFlags :: "string list" where
  "credentialFlags = [''--vault-token'', ''--vault-token-path'', ''--vault-role'']"

definition credentialsEmitted :: "string list \<Rightarrow> nat" where
  "credentialsEmitted args = length (filter (\<lambda>t. t \<in> set credentialFlags) args)"

text \<open>
  The zero value of \<^verbatim>\<open>UnsealConfig\<close> and a cluster identity, on which statements below
  are evaluated.
\<close>

definition zeroUnsealConfig :: UnsealConfig where
  "zeroUnsealConfig =
     \<lparr>Options = \<lparr>PreFlightChecks = None, StoreRootToken = None,
                  SecretThreshold = None, SecretShares = None\<rparr>,
      Kubernetes = \<lparr>SecretNamespace = '''', SecretName = ''''\<rparr>,
      Google = None, Alibaba = None, Azure = None, AWS = None, OCI = None,
      Vault = None, HSM = None\<rparr>"

definition exampleVault :: ObjectMeta where
  "exampleVault = \<lparr>Name = ''vault'', Namespace = ''default''\<rparr>"

section \<open>Notions used to state the claims about the document\<close>

text \<open>The value a document holds under a path of keys, each key read in a nested object.\<close>

fun lookupPath :: "json \<Rightarrow> string list \<Rightarrow> json option" where
  "lookupPath v [] = Some v"
| "lookupPath (JObject m) (key # path) =
     (case map_of m key of None \<Rightarrow> None | Some v \<Rightarrow> lookupPath v path)"
| "lookupPath v (key # path) = None"

text \<open>
  A user value is respected by the value found in its place after the merge when an object
  is still an object and any other value is unchanged.
\<close>

fun respected :: "json \<Rightarrow> json \<Rightarrow> bool" where
  "respected (JObject m) v' = (case v' of JObject m' \<Rightarrow> True | _ \<Rightarrow> False)"
| "respected v v' = (v' = v)"

text \<open>The fragment that holds one string under a path of keys.\<close>

fun spine :: "string list \<Rightarrow> string \<Rightarrow> (string \<times> fragment) list" where
  "spine [] s = []"
| "spine [key] s = [(key, FString s)]"
| "spine (key # key' # path) s = [(key, FMap (spine (key' # path) s))]"

definition registrationPath :: "string list" where
  "registrationPath = [''service_registration'', ''kubernetes'', ''namespace'']"

text \<open>
  The stanza extractor and the HA classifier in the words of the specification, stated on
  the decoded document itself. The document of a resource is the top-level object of its
  configuration, and the empty object when the configuration does not decode to one. A
  value reads as a map when it is an object, or a string that decodes to one; a stanza is
  the top-level value of its name read as a map, and the empty map when there is none.
  The backend type of a stanza is its single key, and the empty string for the empty
  stanza.
\<close>

definition document :: "VaultSpec \<Rightarrow> object" where
  "document spec = (case Config spec of Decodes (JObject doc) outOfRange \<Rightarrow> doc | _ \<Rightarrow> [])"

definition asMap :: "(string \<Rightarrow> object) \<Rightarrow> json option \<Rightarrow> object" where
  "asMap j2o v = (case v of Some (JObject m) \<Rightarrow> m | Some (JString s) \<Rightarrow> j2o s | _ \<Rightarrow> [])"

definition stanza :: "(string \<Rightarrow> object) \<Rightarrow> object \<Rightarrow> string \<Rightarrow> object" where
  "stanza j2o doc name = asMap j2o (map_of doc name)"

definition backendType :: "object \<Rightarrow> string" where
  "backendType st = (case st of [] \<Rightarrow> '''' | (key, params) # rest \<Rightarrow> key)"

text \<open>
  The table of the storage types that support HA, and what it means that a parameter
  asserts true: it is the boolean \<^verbatim>\<open>true\<close>, a number other than zero, or one of the
  strings that read as true.
\<close>

definition haTypes :: "string list" where
  "haTypes = [''consul'', ''dynamodb'', ''etcd'', ''gcs'', ''mysql'', ''postgresql'', ''raft'',
              ''oci'', ''spanner'', ''zookeeper'']"

definition assertsTrue :: "json option \<Rightarrow> bool" where
  "assertsTrue v =
     (case v of
        Some (JBool b) \<Rightarrow> b
      | Some (JNumber n) \<Rightarrow> n \<noteq> 0
      | Some (JString s) \<Rightarrow> s \<in> set [''1'', ''t'', ''T'', ''TRUE'', ''true'', ''True'']
      | _ \<Rightarrow> False)"

text \<open>
  The condition of the HA verdict for a document and a storage backend type \<open>t\<close>: either
  \<open>t\<close> is in the table and the parameters of \<open>t\<close> in the storage stanza assert
  \<open>ha_enabled\<close>, the types \<open>consul\<close> and \<open>raft\<close> needing no such parameter, or the
  \<open>ha_storage\<close> stanza is not empty.
\<close>

definition hasHA :: "(string \<Rightarrow> object) \<Rightarrow> object \<Rightarrow> string \<Rightarrow> bool" where
  "hasHA j2o doc t =
     ((t \<in> set haTypes \<and>
       (assertsTrue (map_of (asMap j2o (map_of (stanza j2o doc ''storage'') t)) ''ha_enabled'') \<or>
        t = ''consul'' \<or> t = ''raft''))
      \<or> stanza j2o doc ''ha_storage'' \<noteq> [])"

text \<open>
  The user document blocks a path of keys when a walk along the path, down through the
  objects of the document, meets a value that is not empty and is not an object, or
  ends on a value that is not empty.
\<close>

fun blocked :: "json \<Rightarrow> string list \<Rightarrow> bool" where
  "blocked (JObject m) (key # path) =
     (case map_of m key of
        None \<Rightarrow> False
      | Some v \<Rightarrow> \<not> isEmptyValue v \<and> (path = [] \<or> (case v of JObject m' \<Rightarrow> blocked v path | _ \<Rightarrow> True)))"
| "blocked v path = False"

text \<open>The documents and resources the statements below are evaluated on.\<close>

definition noStringMaps :: "string \<Rightarrow> object" where
  "noStringMaps s = []"

definition raftConfig :: json where
  "raftConfig = JObject [(''storage'', JObject [(''raft'', JObject [])])]"

definition zeroVaultSpec :: VaultSpec where
  "zeroVaultSpec =
     \<lparr>Image = '''', Config = Malformed, ServiceRegistrationEnabled = False, Ingress = None,
      TLSExpiryThreshold = ''''\<rparr>"

definition exampleCluster :: Vault where
  "exampleCluster = \<lparr>Name = ''vault'', Namespace = ''default'', Spec = zeroVaultSpec\<rparr>"



definition exampleParseDuration :: "string \<Rightarrow> string + Duration" where
  "exampleParseDuration s =
     (if s = ''24h'' then Inr (Hour * 24)
      else Inl ''time: unknown unit in duration'')"

definition exampleIngress :: Ingress where
  "exampleIngress =
     \<lparr>Annotations = Some [''team'' \<mapsto> ''secrets'', ''ingress.kubernetes.io/protocol'' \<mapsto> ''http''],
      Ingress_Spec = \<lparr>IngressClassName = None, DefaultBackend = None, TLS = [], Rules = []\<rparr>\<rparr>"

definition registeredCluster :: "object \<Rightarrow> Vault" where
  "registeredCluster config =
     exampleCluster\<lparr>Spec := zeroVaultSpec\<lparr>Config := Decodes (JObject config) False,
                                            ServiceRegistrationEnabled := True\<rparr>\<rparr>"

definition withConfig :: "object \<Rightarrow> VaultSpec" where
  "withConfig doc = zeroVaultSpec\<lparr>Config := Decodes (JObject doc) False\<rparr>"

definition twoKeyConfig :: object where
  "twoKeyConfig =
     [(''storage'', JObject [(''etcd'', JObject []),
                             (''s3'', JObject [(''ha_enabled'', JBool True)])])]"

definition outOfRangeCluster :: "object \<Rightarrow> Vault" where
  "outOfRangeCluster config =
     exampleCluster\<lparr>Spec := zeroVaultSpec\<lparr>Config := Decodes (JObject config) True,
                                            ServiceRegistrationEnabled := True\<rparr>\<rparr>"

section \<open>Properties of the argument synthesis\<close>

text \<open>\<^verbatim>\<open>ToArgs\<close> is the option flags followed by the contribution of the selected backend.\<close>

lemma optionArgs_let:
  "(let args = [];
        args = (if (case PreFlightChecks opts of None \<Rightarrow> False | Some b \<Rightarrow> \<not> b)
                then args @ [''--pre-flight-checks=false''] else args);
        args = (if (case StoreRootToken opts of None \<Rightarrow> False | Some b \<Rightarrow> \<not> b)
                then args @ [''--store-root-token=false''] else args);
        args = (if (case SecretShares opts of None \<Rightarrow> False | Some n \<Rightarrow> n > 0)
                then args @ [''--secret-shares'', Sprint (the (SecretShares opts))]
                else args);
        args = (if (case SecretThreshold opts of None \<Rightarrow> False | Some n \<Rightarrow> n > 0)
                then args @ [''--secret-threshold'', Sprint (the (SecretThreshold opts))]
                else args)
    in f args) = f (optionArgs opts)"
  by (cases "PreFlightChecks opts"; cases "StoreRootToken opts"; cases "SecretShares opts";
      cases "SecretThreshold opts") (simp_all add: optionArgs_def Let_def)

lemma ToArgs_refines:
  "ToArgs usc vault visited =
     optionArgs (Options usc) @ backendArgs (selectBackend usc) (Kubernetes usc) vault visited"
  unfolding ToArgs_def optionArgs_let
  by (cases "Google usc"; cases "Azure usc"; cases "OCI usc"; cases "AWS usc"; cases "Alibaba usc";
      cases "Vault usc"; cases "HSM usc")
     (simp_all add: backendArgs_def selectBackend_def Let_def
        vaultCredential_def hsmK8s_def secretLabelsArg_def)

lemma SprintNat_digits: "set (SprintNat n) \<subseteq> set ''0123456789''"
proof (induction n rule: SprintNat.induct)
  case (1 n)
  show ?case
  proof (cases "n < 10")
    case True
    then show ?thesis by (subst SprintNat.simps) simp
  next
    case False
    with 1 have "set (SprintNat (n div 10)) \<subseteq> set ''0123456789''" by simp
    with False show ?thesis by (subst SprintNat.simps) auto
  qed
qed

lemma Sprint_not_mode: "Sprint n \<noteq> ''--mode''"
proof
  assume "Sprint n = ''--mode''"
  then have "CHR ''-'' \<in> set (SprintNat (unat n))" by (simp add: Sprint_def)
  with SprintNat_digits show False by fastforce
qed

lemma mode_notin_optionArgs: "''--mode'' \<notin> set (optionArgs opts)"
  using Sprint_not_mode [symmetric]
  by (auto simp: optionArgs_def split: option.splits bool.splits if_splits)

lemma modePairs_append: "''--mode'' \<notin> set xs \<Longrightarrow> modePairs (xs @ ys) = modePairs ys"
proof (induction xs)
  case Nil
  then show ?case by simp
next
  case (Cons x xs)
  then show ?case by (cases "xs @ ys") auto
qed

lemma modeName_in_modeNames: "modeName b k \<in> set modeNames"
  by (cases b) (simp_all add: modeNames_def)

lemma modePairs_credentialArgs: "modePairs (t # credentialArgs c) = 0"
  by (cases c) (simp_all add: modeNames_def)

lemma modePairs_modeFlags: "modePairs (t # modeFlags b k vault visited) = 0"
  by (cases b) (simp_all add: modeNames_def modePairs_credentialArgs)

lemma modePairs_backendArgs: "modePairs (backendArgs b k vault visited) = 1"
  by (simp add: backendArgs_def modeName_in_modeNames modePairs_modeFlags)

lemma appendLabels_map: "appendLabels acc vs = acc @ map (\<lambda>(k, v). k @ ''='' @ v) vs"
  by (induction vs arbitrary: acc) auto

lemma secretLabelsArg_perm:
  assumes "mset v1 = mset v2"
  shows "secretLabelsArg v1 = secretLabelsArg v2"
proof -
  let ?f = "\<lambda>(k :: string, v :: string). k @ ''='' @ v"
  have "mset (map ?f v1) = mset (map ?f v2)"
    using assms by (metis mset_map)
  then have "sort (map ?f v1) = sort (map ?f v2)"
    by (metis sorted_list_of_multiset_mset)
  then show ?thesis
    by (simp add: secretLabelsArg_def sortStrings_def appendLabels_map)
qed

lemma secretLabelsArg_LabelsForVault:
  "secretLabelsArg (LabelsForVault vault) = ''app.kubernetes.io/name=vault,vault_cr='' @ Name vault"
  by (simp add: secretLabelsArg_def sortStrings_def LabelsForVault_def)

lemma modeFlags_visited:
  "secretLabelsArg v1 = secretLabelsArg v2 \<Longrightarrow>
   modeFlags b k vault v1 = modeFlags b k vault v2"
  by (cases b) simp_all

lemma selectBackend_cases:
  "selectBackend usc =
     (case Google usc of Some c \<Rightarrow> GoogleBackend c | None \<Rightarrow>
      (case Azure usc of Some c \<Rightarrow> AzureBackend c | None \<Rightarrow>
      (case OCI usc of Some c \<Rightarrow> OCIBackend c | None \<Rightarrow>
      (case AWS usc of Some c \<Rightarrow> AWSBackend c | None \<Rightarrow>
      (case Alibaba usc of Some c \<Rightarrow> AlibabaBackend c | None \<Rightarrow>
      (case Vault usc of Some c \<Rightarrow> VaultBackend c | None \<Rightarrow>
      (case HSM usc of Some c \<Rightarrow> HSMBackend c | None \<Rightarrow> KubernetesBackend)))))))"
  by (simp add: selectBackend_def split: option.splits)

section \<open>Properties of the stanzas and of the merge\<close>

lemma MapKeys_single: "MapKeys order [(k, v)] = [k]"
  by (simp add: MapKeys_def)

lemma MapKeys_short: "length m \<le> 1 \<Longrightarrow> MapKeys order m = map fst m"
  by (simp add: MapKeys_def)

lemma HasHAStorage_unfold:
  "HasHAStorage j2o order1 order2 spec \<longleftrightarrow>
     (GetStorageType j2o order1 spec \<in> fst ` set HAStorageTypes \<and>
      (GetStorageType j2o order2 spec = ''consul'' \<or> GetStorageType j2o order2 spec = ''raft'' \<or>
       ToBool (index (ToStringMap j2o (index (getStorage j2o spec) (GetStorageType j2o order2 spec)))
                 ''ha_enabled'')))
     \<or> getHAStorage j2o spec \<noteq> []"
  by (simp add: HasHAStorage_def HasStorageHAEnabled_def hasHAStorageStanza_def Let_def
        map_of_eq_None_iff)

lemma getStorage_stanza: "getStorage j2o spec = stanza j2o (document spec) ''storage''"
  by (simp add: getStorage_def GetVaultConfig_def Unmarshal_def document_def stanza_def asMap_def
        index_def ToStringMap_def split: RawJSON.splits json.splits option.splits)

lemma getHAStorage_stanza: "getHAStorage j2o spec = stanza j2o (document spec) ''ha_storage''"
  by (simp add: getHAStorage_def GetVaultConfig_def Unmarshal_def document_def stanza_def asMap_def
        index_def ToStringMap_def split: RawJSON.splits json.splits option.splits)

lemma ToBool_index: "ToBool (index m key) = assertsTrue (map_of m key)"
  by (simp add: ToBool_def index_def assertsTrue_def ParseBool_def split: option.splits json.splits)

lemma ToStringMap_index: "ToStringMap j2o (index m key) = asMap j2o (map_of m key)"
  by (simp add: ToStringMap_def index_def asMap_def split: option.splits json.splits)

lemma HAStorageTypes_haTypes: "fst ` set HAStorageTypes = set haTypes"
  by (simp add: HAStorageTypes_def haTypes_def)

lemma map_of_setMapIndex:
  "map_of (setMapIndex m key v) key' = (if key' = key then Some v else map_of m key')"
  by (induction m key v rule: setMapIndex.induct) auto

lemma setMapIndex_nonempty: "setMapIndex m key v \<noteq> []"
  by (cases m) (auto split: if_splits)

lemma lookupPath_empty: "isEmptyValue d \<Longrightarrow> lookupPath d (key # path) = None"
  by (cases d) auto

lemma lookupPath_JString: "path \<noteq> [] \<Longrightarrow> lookupPath (JString s) path = None"
  by (cases path) auto

lemma respected_refl: "respected v v"
  by (cases v) auto

lemma deepMerge_FString:
  "deepMerge dst [(key, FString s)] =
     (case map_of dst key of
        None \<Rightarrow> setMapIndex dst key (JString s)
      | Some dstElement \<Rightarrow>
          if isEmptyValue dstElement then setMapIndex dst key (JString s) else dst)"
  by simp

lemma deepMerge_FMap:
  "deepMerge dst [(key, FMap srcMap)] =
     (case map_of dst key of
        None \<Rightarrow> setMapIndex dst key (embed (FMap srcMap))
      | Some (JObject dstMap) \<Rightarrow>
          (if deepMerge dstMap srcMap = [] then setMapIndex dst key (embed (FMap srcMap))
           else setMapIndex dst key (JObject (deepMerge dstMap srcMap)))
      | Some dstElement \<Rightarrow>
          if isEmptyValue dstElement then setMapIndex dst key (embed (FMap srcMap)) else dst)"
  by (simp add: Let_def split: option.splits json.splits)

lemma deepMerge_spine_nonempty:
  assumes "path \<noteq> []"
  shows "deepMerge dst (spine path s) \<noteq> []"
proof (cases path)
  case Nil
  with assms show ?thesis by simp
next
  case (Cons key rest)
  have keep: "map_of dst key = Some d \<Longrightarrow> dst \<noteq> []" for d
    by auto
  show ?thesis
  proof (cases rest)
    case Nil
    with Cons keep show ?thesis
      by (auto simp: deepMerge_FString setMapIndex_nonempty split: option.splits)
  next
    case (Cons key' rest')
    with \<open>path = key # rest\<close> keep show ?thesis
      by (auto simp: deepMerge_FMap setMapIndex_nonempty simp del: deepMerge.simps
               split: option.splits json.splits)
  qed
qed

lemma lookupPath_embed_spine:
  "\<not> prefix path keys \<Longrightarrow> lookupPath (embed (FMap (spine keys s))) path = None"
proof (induction keys s arbitrary: path rule: spine.induct)
  case (1 s)
  then show ?case by (cases path) auto
next
  case (2 key s)
  then show ?case
    by (cases path) (auto simp: lookupPath_JString)
next
  case (3 key key' rest s)
  show ?case
  proof (cases path)
    case Nil
    with 3 show ?thesis by simp
  next
    case (Cons p ps)
    with 3 show ?thesis by auto
  qed
qed

lemma deepMerge_spine_frame:
  "\<not> prefix path keys \<Longrightarrow>
   lookupPath (JObject (deepMerge dst (spine keys s))) path = lookupPath (JObject dst) path"
proof (induction keys s arbitrary: dst path rule: spine.induct)
  case (1 s)
  then show ?case by simp
next
  case (2 key s)
  then obtain p ps where path: "path = p # ps" by (cases path) auto
  show ?case
  proof (cases "p = key")
    case False
    then show ?thesis
      unfolding path spine.simps deepMerge_FString
      by (auto simp: map_of_setMapIndex split: option.splits)
  next
    case True
    with 2 path have ps: "ps \<noteq> []" by auto
    then obtain q qs where qs: "ps = q # qs" by (cases ps) auto
    show ?thesis
      unfolding path spine.simps deepMerge_FString True qs
      by (auto simp: map_of_setMapIndex lookupPath_empty split: option.splits)
  qed
next
  case (3 key key' rest s)
  then obtain p ps where path: "path = p # ps" by (cases path) auto
  let ?sm = "spine (key' # rest) s"
  show ?case
  proof (cases "p = key")
    case False
    then show ?thesis
      unfolding path spine.simps deepMerge_FMap
      by (auto simp: map_of_setMapIndex split: option.splits json.splits)
  next
    case True
    with 3 path have np: "\<not> prefix ps (key' # rest)" by auto
    then obtain q qs where qs: "ps = q # qs" by (cases ps) auto
    have emb: "lookupPath (embed (FMap ?sm)) ps = None"
      using np by (rule lookupPath_embed_spine)
    show ?thesis
    proof (cases "map_of dst key")
      case None
      then show ?thesis
        unfolding path spine.simps deepMerge_FMap True
        using emb by (simp add: map_of_setMapIndex)
    next
      case (Some d)
      show ?thesis
      proof (cases "\<exists>dm. d = JObject dm")
        case True
        then obtain dm where d: "d = JObject dm" by blast
        have ne: "deepMerge dm ?sm \<noteq> []"
          by (rule deepMerge_spine_nonempty) simp
        have ih: "lookupPath (JObject (deepMerge dm ?sm)) ps = lookupPath (JObject dm) ps"
          using np by (rule 3)
        show ?thesis
          unfolding path spine.simps deepMerge_FMap \<open>p = key\<close>
          using Some d ne ih by (simp add: map_of_setMapIndex)
      next
        case False
        then have no: "lookupPath d ps = None"
          unfolding qs by (cases d) auto
        from False have "deepMerge dst [(key, FMap ?sm)] =
            (if isEmptyValue d then setMapIndex dst key (embed (FMap ?sm)) else dst)"
          unfolding deepMerge_FMap using Some by (cases d) auto
        then show ?thesis
          unfolding path spine.simps \<open>p = key\<close>
          using Some emb no by (simp add: map_of_setMapIndex)
      qed
    qed
  qed
qed

lemma deepMerge_spine_keeps:
  "lookupPath (JObject dst) path = Some v \<Longrightarrow>
   \<exists>v'. lookupPath (JObject (deepMerge dst (spine keys s))) path = Some v' \<and>
        (\<not> isEmptyValue v \<longrightarrow> respected v v')"
proof (induction keys s arbitrary: dst path v rule: spine.induct)
  case (1 s)
  then show ?case by (simp add: respected_refl)
next
  case (2 key s)
  show ?case
  proof (cases path)
    case Nil
    with 2 show ?thesis by auto
  next
    case (Cons p ps)
    show ?thesis
    proof (cases "p = key")
      case False
      with 2 Cons show ?thesis
        unfolding spine.simps deepMerge_FString
        by (auto simp: map_of_setMapIndex respected_refl split: option.splits)
    next
      case True
      from 2 Cons True obtain d where d: "map_of dst key = Some d" and dv: "lookupPath d ps = Some v"
        by (auto split: option.splits)
      show ?thesis
      proof (cases "isEmptyValue d")
        case False
        then show ?thesis
          unfolding Cons True spine.simps deepMerge_FString
          using d dv by (simp add: respected_refl)
      next
        case True
        with dv have "ps = []" and "v = d"
          by (cases ps; simp add: lookupPath_empty)+
        with True show ?thesis
          unfolding Cons \<open>p = key\<close> spine.simps deepMerge_FString
          using d by (simp add: map_of_setMapIndex)
      qed
    qed
  qed
next
  case (3 key key' rest s)
  let ?sm = "spine (key' # rest) s"
  show ?case
  proof (cases path)
    case Nil
    with 3 show ?thesis by auto
  next
    case (Cons p ps)
    show ?thesis
    proof (cases "p = key")
      case False
      with 3 Cons show ?thesis
        unfolding spine.simps deepMerge_FMap
        by (auto simp: map_of_setMapIndex respected_refl split: option.splits json.splits)
    next
      case True
      from 3(2) Cons True obtain d where d: "map_of dst key = Some d" and dv: "lookupPath d ps = Some v"
        by (auto split: option.splits)
      show ?thesis
      proof (cases "\<exists>dm. d = JObject dm")
        case True
        then obtain dm where dm: "d = JObject dm" by blast
        have ne: "deepMerge dm ?sm \<noteq> []"
          by (rule deepMerge_spine_nonempty) simp
        from dv dm have "lookupPath (JObject dm) ps = Some v" by simp
        then have "\<exists>v'. lookupPath (JObject (deepMerge dm ?sm)) ps = Some v' \<and>
            (\<not> isEmptyValue v \<longrightarrow> respected v v')"
          by (rule 3(1))
        then show ?thesis
          unfolding Cons \<open>p = key\<close> spine.simps deepMerge_FMap
          using d dm ne by (simp add: map_of_setMapIndex)
      next
        case False
        then have step: "deepMerge dst [(key, FMap ?sm)] =
            (if isEmptyValue d then setMapIndex dst key (embed (FMap ?sm)) else dst)"
          unfolding deepMerge_FMap using d by (cases d) auto
        from False dv have ps: "ps = []" and v: "v = d"
          by (cases ps; cases d; simp)+
        show ?thesis
          unfolding Cons \<open>p = key\<close> spine.simps step ps v
          using d by (simp add: map_of_setMapIndex respected_refl)
      qed
    qed
  qed
qed

lemma serviceRegistration_spine:
  "serviceRegistration namespace = spine registrationPath namespace"
  by (simp add: serviceRegistration_def registrationPath_def)

lemma setMapIndex_same: "map_of m key = Some v \<Longrightarrow> setMapIndex m key v = m"
  by (induction m key v rule: setMapIndex.induct) (auto split: if_splits)

lemma lookupPath_embed_spine_at:
  "keys \<noteq> [] \<Longrightarrow> lookupPath (embed (FMap (spine keys s))) keys = Some (JString s)"
  by (induction keys s rule: spine.induct) auto

lemma blocked_empty_object: "\<not> blocked (JObject []) path"
  by (cases path) auto

lemma deepMerge_spine_fill:
  "keys \<noteq> [] \<Longrightarrow> \<not> blocked (JObject dst) keys \<Longrightarrow>
   lookupPath (JObject (deepMerge dst (spine keys s))) keys = Some (JString s)"
proof (induction keys s arbitrary: dst rule: spine.induct)
  case (1 s)
  then show ?case by simp
next
  case (2 key s)
  then show ?case
    unfolding spine.simps deepMerge_FString
    by (auto simp: map_of_setMapIndex split: option.splits)
next
  case (3 key key' rest s)
  let ?sm = "spine (key' # rest) s"
  have emb: "lookupPath (embed (FMap ?sm)) (key' # rest) = Some (JString s)"
    by (rule lookupPath_embed_spine_at) simp
  show ?case
  proof (cases "map_of dst key")
    case None
    then show ?thesis
      unfolding spine.simps deepMerge_FMap using emb by (simp add: map_of_setMapIndex)
  next
    case (Some d)
    show ?thesis
    proof (cases "\<exists>dm. d = JObject dm")
      case True
      then obtain dm where d: "d = JObject dm" by blast
      have free: "\<not> blocked (JObject dm) (key' # rest)"
      proof (cases "dm = []")
        case True
        then show ?thesis by (simp add: blocked_empty_object)
      next
        case False
        with 3(3) Some d show ?thesis by simp
      qed
      have ne: "deepMerge dm ?sm \<noteq> []"
        by (rule deepMerge_spine_nonempty) simp
      have "lookupPath (JObject (deepMerge dm ?sm)) (key' # rest) = Some (JString s)"
        using free by (intro 3(1)) simp_all
      then show ?thesis
        unfolding spine.simps deepMerge_FMap using Some d ne by (simp add: map_of_setMapIndex)
    next
      case False
      with 3(3) Some have empty: "isEmptyValue d"
        by (cases d) auto
      from False have "deepMerge dst [(key, FMap ?sm)] =
          (if isEmptyValue d then setMapIndex dst key (embed (FMap ?sm)) else dst)"
        unfolding deepMerge_FMap using Some by (cases d) auto
      then show ?thesis
        unfolding spine.simps using empty emb by (simp add: map_of_setMapIndex)
    qed
  qed
qed

lemma deepMerge_spine_stay:
  "blocked (JObject dst) keys \<Longrightarrow> deepMerge dst (spine keys s) = dst"
proof (induction keys s arbitrary: dst rule: spine.induct)
  case (1 s)
  then show ?case by simp
next
  case (2 key s)
  then show ?case
    unfolding spine.simps deepMerge_FString
    by (auto split: option.splits)
next
  case (3 key key' rest s)
  let ?sm = "spine (key' # rest) s"
  from 3(2) obtain d where d: "map_of dst key = Some d" and ne: "\<not> isEmptyValue d"
    and deeper: "case d of JObject m' \<Rightarrow> blocked d (key' # rest) | _ \<Rightarrow> True"
    by (auto split: option.splits)
  show ?case
  proof (cases "\<exists>dm. d = JObject dm")
    case True
    then obtain dm where dm: "d = JObject dm" by blast
    with deeper have "blocked (JObject dm) (key' # rest)" by simp
    then have same: "deepMerge dm ?sm = dm" by (rule 3(1))
    from ne dm have "dm \<noteq> []" by simp
    then show ?thesis
      unfolding spine.simps deepMerge_FMap
      using d dm same by (simp add: setMapIndex_same)
  next
    case False
    then have "deepMerge dst [(key, FMap ?sm)] =
        (if isEmptyValue d then setMapIndex dst key (embed (FMap ?sm)) else dst)"
      unfolding deepMerge_FMap using d by (cases d) auto
    then show ?thesis
      unfolding spine.simps using ne by simp
  qed
qed

lemma HasHAStorage_null:
  "Config spec = Decodes JNull outOfRange \<Longrightarrow> \<not> HasHAStorage j2o order1 order2 spec"
  by (simp add: HasHAStorage_unfold GetStorageType_def getStorage_def getHAStorage_def
        GetVaultConfig_def Unmarshal_def index_def ToStringMap_def MapKeys_def HAStorageTypes_def)

section \<open>The claims about \<^verbatim>\<open>ToArgs\<close>\<close>

text \<open>
  C1. For every unseal configuration and cluster identity, \<^verbatim>\<open>ToArgs\<close> selects the
  backend by fixed priority, first match wins, in the order Google, Azure, Oracle, AWS,
  Alibaba, remote Vault, HSM, and the Kubernetes-secret default only when none of them is
  set. The output is the cross-cutting option flags followed by the tokens of the one
  selected backend, so the option flags stand before every mode-specific flag, and at most
  one pair of a \<^verbatim>\<open>--mode\<close> token and a backend mode name occurs in the output.
\<close>

theorem ToArgs_backend_priority:
  "ToArgs usc vault visited =
     optionArgs (Options usc) @
     [''--mode'', modeName (selectBackend usc) (Kubernetes usc)] @
     modeFlags (selectBackend usc) (Kubernetes usc) vault visited
   \<and> ''--mode'' \<notin> set (optionArgs (Options usc))
   \<and> modePairs (ToArgs usc vault visited) \<le> 1
   \<and> (\<forall>c. Google usc = Some c \<longrightarrow> selectBackend usc = GoogleBackend c)
   \<and> (\<forall>c. Google usc = None \<and> Azure usc = Some c \<longrightarrow> selectBackend usc = AzureBackend c)
   \<and> (\<forall>c. Google usc = None \<and> Azure usc = None \<and> OCI usc = Some c \<longrightarrow>
          selectBackend usc = OCIBackend c)
   \<and> (\<forall>c. Google usc = None \<and> Azure usc = None \<and> OCI usc = None \<and> AWS usc = Some c \<longrightarrow>
          selectBackend usc = AWSBackend c)
   \<and> (\<forall>c. Google usc = None \<and> Azure usc = None \<and> OCI usc = None \<and> AWS usc = None \<and>
          Alibaba usc = Some c \<longrightarrow> selectBackend usc = AlibabaBackend c)
   \<and> (\<forall>c. Google usc = None \<and> Azure usc = None \<and> OCI usc = None \<and> AWS usc = None \<and>
          Alibaba usc = None \<and> Vault usc = Some c \<longrightarrow> selectBackend usc = VaultBackend c)
   \<and> (\<forall>c. Google usc = None \<and> Azure usc = None \<and> OCI usc = None \<and> AWS usc = None \<and>
          Alibaba usc = None \<and> Vault usc = None \<and> HSM usc = Some c \<longrightarrow>
          selectBackend usc = HSMBackend c)
   \<and> (selectBackend usc = KubernetesBackend \<longleftrightarrow>
        Google usc = None \<and> Azure usc = None \<and> OCI usc = None \<and> AWS usc = None \<and>
        Alibaba usc = None \<and> Vault usc = None \<and> HSM usc = None)"
proof -
  have split: "ToArgs usc vault visited =
      optionArgs (Options usc) @ backendArgs (selectBackend usc) (Kubernetes usc) vault visited"
    by (rule ToArgs_refines)
  have pairs: "modePairs (ToArgs usc vault visited) = 1"
    by (simp add: split modePairs_append mode_notin_optionArgs modePairs_backendArgs)
  have sel: "selectBackend usc = KubernetesBackend \<longleftrightarrow>
        Google usc = None \<and> Azure usc = None \<and> OCI usc = None \<and> AWS usc = None \<and>
        Alibaba usc = None \<and> Vault usc = None \<and> HSM usc = None"
    by (simp add: selectBackend_cases split: option.splits)
  show ?thesis
    using split pairs sel mode_notin_optionArgs [of "Options usc"]
    by (simp add: backendArgs_def selectBackend_cases)
qed

theorem ToArgs_backend_priority_witness:
  "ToArgs (zeroUnsealConfig
             \<lparr>Options := \<lparr>PreFlightChecks = Some False, StoreRootToken = Some True,
                          SecretThreshold = Some 3, SecretShares = Some 0\<rparr>,
              Azure := Some \<lparr>KeyVaultName = ''kv1''\<rparr>,
              Vault := Some \<lparr>Address = ''a'', UnsealKeysPath = ''p'', Role = ''r'',
                             AuthPath = ''k'', TokenPath = '''', Token = ''''\<rparr>\<rparr>)
          exampleVault (LabelsForVault exampleVault)
     = [''--pre-flight-checks=false'', ''--secret-threshold'', ''3'',
        ''--mode'', ''azure-key-vault'', ''--azure-key-vault-name'', ''kv1'']"
  using ToArgs_backend_priority
    [of "zeroUnsealConfig
             \<lparr>Options := \<lparr>PreFlightChecks = Some False, StoreRootToken = Some True,
                          SecretThreshold = Some 3, SecretShares = Some 0\<rparr>,
              Azure := Some \<lparr>KeyVaultName = ''kv1''\<rparr>,
              Vault := Some \<lparr>Address = ''a'', UnsealKeysPath = ''p'', Role = ''r'',
                             AuthPath = ''k'', TokenPath = '''', Token = ''''\<rparr>\<rparr>"
        exampleVault "LabelsForVault exampleVault"]
  by (simp add: zeroUnsealConfig_def optionArgs_def Sprint_def SprintNat.simps)

text \<open>
  C3. With only the AWS variant set and no cross-cutting option, KMS key id \<open>k1\<close>, KMS
  region \<open>r1\<close>, bucket \<open>b1\<close>, prefix \<open>p1\<close> and the S3 region, the SSE algorithm and the
  encryption context empty, \<^verbatim>\<open>ToArgs\<close> returns exactly the fourteen tokens below: the
  empty optional fields are emitted as empty tokens. Whenever the AWS variant is the
  selected one, the \<^verbatim>\<open>--aws-kms-encryption-context\<close> pair follows these tokens exactly
  when the encryption context is not empty.
\<close>

theorem ToArgs_aws:
  "ToArgs \<lparr>Options = \<lparr>PreFlightChecks = None, StoreRootToken = None,
                        SecretThreshold = None, SecretShares = None\<rparr>,
           Kubernetes = k,
           Google = None, Alibaba = None, Azure = None,
           AWS = Some \<lparr>AWS_KMSKeyID = ''k1'', AWS_KMSRegion = ''r1'', KMSEncryptionContext = '''',
                       S3Bucket = ''b1'', S3Prefix = ''p1'', S3Region = '''', S3SSE = ''''\<rparr>,
           OCI = None, Vault = None, HSM = None\<rparr> vault visited
     = [''--mode'', ''aws-kms-s3'', ''--aws-kms-key-id'', ''k1'', ''--aws-kms-region'', ''r1'',
        ''--aws-s3-bucket'', ''b1'', ''--aws-s3-prefix'', ''p1'', ''--aws-s3-region'', '''',
        ''--aws-s3-sse-algo'', '''']
   \<and> (\<forall>usc aws. Google usc = None \<and> Azure usc = None \<and> OCI usc = None \<and> AWS usc = Some aws \<longrightarrow>
         ToArgs usc vault visited =
           optionArgs (Options usc) @
           [''--mode'', ''aws-kms-s3'', ''--aws-kms-key-id'', AWS_KMSKeyID aws,
            ''--aws-kms-region'', AWS_KMSRegion aws, ''--aws-s3-bucket'', S3Bucket aws,
            ''--aws-s3-prefix'', S3Prefix aws, ''--aws-s3-region'', S3Region aws,
            ''--aws-s3-sse-algo'', S3SSE aws] @
           (if KMSEncryptionContext aws \<noteq> ''''
            then [''--aws-kms-encryption-context'', KMSEncryptionContext aws] else []))"
  by (simp add: ToArgs_refines selectBackend_cases backendArgs_def optionArgs_def)

theorem ToArgs_aws_witness:
  "ToArgs (zeroUnsealConfig
             \<lparr>Options := \<lparr>PreFlightChecks = None, StoreRootToken = Some False,
                          SecretThreshold = None, SecretShares = Some 12\<rparr>,
              AWS := Some \<lparr>AWS_KMSKeyID = ''k1'', AWS_KMSRegion = ''r1'',
                           KMSEncryptionContext = ''app=vault'',
                           S3Bucket = ''b1'', S3Prefix = ''p1'', S3Region = ''eu'', S3SSE = ''''\<rparr>,
              HSM := Some \<lparr>Daemon = False, ModulePath = ''m'', SlotID = 0, TokenLabel = '''',
                           Pin = '''', KeyLabel = ''l''\<rparr>\<rparr>)
          exampleVault (LabelsForVault exampleVault)
     = [''--store-root-token=false'', ''--secret-shares'', ''12'',
        ''--mode'', ''aws-kms-s3'', ''--aws-kms-key-id'', ''k1'', ''--aws-kms-region'', ''r1'',
        ''--aws-s3-bucket'', ''b1'', ''--aws-s3-prefix'', ''p1'', ''--aws-s3-region'', ''eu'',
        ''--aws-s3-sse-algo'', '''', ''--aws-kms-encryption-context'', ''app=vault'']"
  using ToArgs_aws [of "Kubernetes zeroUnsealConfig" exampleVault "LabelsForVault exampleVault"]
  by (simp add: zeroUnsealConfig_def optionArgs_def Sprint_def SprintNat.simps)

text \<open>
  C5, as stated: whenever the remote-Vault variant is selected, exactly one of the literal
  token, the token-file path and the role with its auth path is emitted. The source guards
  the third alternative too (\<^verbatim>\<open>else if usc.Vault.Role != ""\<close>), so a configuration
  whose token, token path and role are all empty emits none of them.
\<close>

theorem ToArgs_vault_credential_counterexample:
  "ToArgs (zeroUnsealConfig
             \<lparr>Vault := Some \<lparr>Address = ''https://central:8200'', UnsealKeysPath = ''secret/unseal'',
                             Role = '''', AuthPath = ''kubernetes'', TokenPath = '''',
                             Token = ''''\<rparr>\<rparr>)
          exampleVault (LabelsForVault exampleVault)
     = [''--mode'', ''vault'', ''--vault-addr'', ''https://central:8200'',
        ''--vault-unseal-keys-path'', ''secret/unseal'']
   \<and> credentialsEmitted
         (ToArgs (zeroUnsealConfig
             \<lparr>Vault := Some \<lparr>Address = ''https://central:8200'', UnsealKeysPath = ''secret/unseal'',
                             Role = '''', AuthPath = ''kubernetes'', TokenPath = '''',
                             Token = ''''\<rparr>\<rparr>)
          exampleVault (LabelsForVault exampleVault)) \<noteq> 1"
  by (simp add: ToArgs_def zeroUnsealConfig_def credentialsEmitted_def credentialFlags_def)

text \<open>
  C5, amended: whenever the remote-Vault variant is selected, at most one of the literal
  token (\<^verbatim>\<open>--vault-token\<close>), the token-file path (\<^verbatim>\<open>--vault-token-path\<close>) and the
  role with its auth path (\<^verbatim>\<open>--vault-role\<close>, \<^verbatim>\<open>--vault-auth-path\<close>) is emitted,
  after the address and the unseal-keys path, chosen by the precedence literal token,
  else token-file path, else role; one is emitted exactly when the token, the token path
  or the role is not empty, and none when all three are empty.
\<close>

theorem ToArgs_vault_credential:
  "Google usc = None \<and> Azure usc = None \<and> OCI usc = None \<and> AWS usc = None \<and>
   Alibaba usc = None \<and> Vault usc = Some vlt \<Longrightarrow>
   ToArgs usc vault visited =
     optionArgs (Options usc) @
     [''--mode'', ''vault'', ''--vault-addr'', Address vlt,
      ''--vault-unseal-keys-path'', UnsealKeysPath vlt] @
     credentialArgs (vaultCredential vlt)
   \<and> vaultCredential vlt =
       (if Token vlt \<noteq> '''' then LiteralToken (Token vlt)
        else if TokenPath vlt \<noteq> '''' then TokenFile (TokenPath vlt)
        else if Role vlt \<noteq> '''' then RoleAuth (Role vlt) (AuthPath vlt)
        else NoCredential)
   \<and> (vaultCredential vlt = NoCredential \<longleftrightarrow>
        Token vlt = '''' \<and> TokenPath vlt = '''' \<and> Role vlt = '''')
   \<and> (credentialArgs (vaultCredential vlt) = [] \<longleftrightarrow>
        Token vlt = '''' \<and> TokenPath vlt = '''' \<and> Role vlt = '''')"
proof -
  assume sel: "Google usc = None \<and> Azure usc = None \<and> OCI usc = None \<and> AWS usc = None \<and>
    Alibaba usc = None \<and> Vault usc = Some vlt"
  then have b: "selectBackend usc = VaultBackend vlt"
    by (simp add: selectBackend_cases)
  have args: "ToArgs usc vault visited =
     optionArgs (Options usc) @
     [''--mode'', ''vault'', ''--vault-addr'', Address vlt,
      ''--vault-unseal-keys-path'', UnsealKeysPath vlt] @
     credentialArgs (vaultCredential vlt)"
    by (simp add: ToArgs_refines b backendArgs_def)
  show ?thesis
    using args by (simp add: vaultCredential_def)
qed

theorem ToArgs_vault_credential_witness:
  "ToArgs (zeroUnsealConfig
             \<lparr>Vault := Some \<lparr>Address = ''https://central:8200'', UnsealKeysPath = ''secret/unseal'',
                             Role = ''unsealer'', AuthPath = ''kubernetes'',
                             TokenPath = ''/var/run/token'', Token = ''''\<rparr>\<rparr>)
          exampleVault (LabelsForVault exampleVault)
     = [''--mode'', ''vault'', ''--vault-addr'', ''https://central:8200'',
        ''--vault-unseal-keys-path'', ''secret/unseal'',
        ''--vault-token-path'', ''/var/run/token'']"
  using ToArgs_vault_credential
    [of "zeroUnsealConfig
             \<lparr>Vault := Some \<lparr>Address = ''https://central:8200'', UnsealKeysPath = ''secret/unseal'',
                             Role = ''unsealer'', AuthPath = ''kubernetes'',
                             TokenPath = ''/var/run/token'', Token = ''''\<rparr>\<rparr>"
        "\<lparr>Address = ''https://central:8200'', UnsealKeysPath = ''secret/unseal'',
          Role = ''unsealer'', AuthPath = ''kubernetes'',
          TokenPath = ''/var/run/token'', Token = ''''\<rparr>"
        exampleVault "LabelsForVault exampleVault"]
  by (simp add: zeroUnsealConfig_def optionArgs_def)

text \<open>
  C6. The value of \<^verbatim>\<open>--k8s-secret-labels\<close> does not depend on the order in which the
  \<^verbatim>\<open>range\<close> over the label map visits its entries: for any two visiting orders of
  \<^verbatim>\<open>vault.LabelsForVault()\<close> the whole argument list is the same. The \<open>key=value\<close>
  entries are sorted ascending before they are joined with commas, the joined value is
  \<^verbatim>\<open>app.kubernetes.io/name=vault,vault_cr=<name>\<close>, and it is the last token both in
  the \<^verbatim>\<open>hsm-k8s\<close> mode and in the Kubernetes-secret default mode.
\<close>

theorem ToArgs_labels_deterministic:
  "rangeOrder (LabelsForVault vault) v1 \<Longrightarrow> rangeOrder (LabelsForVault vault) v2 \<Longrightarrow>
   ToArgs usc vault v1 = ToArgs usc vault v2
   \<and> sorted (sortStrings (appendLabels [] v1))
   \<and> mset (sortStrings (appendLabels [] v1)) = mset (map (\<lambda>(k, v). k @ ''='' @ v) (LabelsForVault vault))
   \<and> Join (sortStrings (appendLabels [] v1)) '','' =
       ''app.kubernetes.io/name=vault,vault_cr='' @ Name vault
   \<and> (modeName (selectBackend usc) (Kubernetes usc) \<in> {''hsm-k8s'', ''k8s''} \<longrightarrow>
        (\<exists>front. ToArgs usc vault v1 =
           front @ [''--k8s-secret-labels'', ''app.kubernetes.io/name=vault,vault_cr='' @ Name vault]))"
proof -
  assume r1: "rangeOrder (LabelsForVault vault) v1" and r2: "rangeOrder (LabelsForVault vault) v2"
  then have m1: "mset v1 = mset (LabelsForVault vault)" and m2: "mset v2 = mset (LabelsForVault vault)"
    by (simp_all add: rangeOrder_def)
  have l1: "secretLabelsArg v1 = ''app.kubernetes.io/name=vault,vault_cr='' @ Name vault"
    using secretLabelsArg_perm [OF m1] by (simp add: secretLabelsArg_LabelsForVault)
  have l2: "secretLabelsArg v2 = secretLabelsArg v1"
    using secretLabelsArg_perm [of v2 v1] m1 m2 by simp
  have same: "ToArgs usc vault v1 = ToArgs usc vault v2"
    using modeFlags_visited [OF l2, of "selectBackend usc" "Kubernetes usc" vault]
    by (simp add: ToArgs_refines backendArgs_def)
  have srt: "sorted (sortStrings (appendLabels [] v1))"
    by (simp add: sortStrings_def)
  have perm: "mset (sortStrings (appendLabels [] v1)) =
      mset (map (\<lambda>(k, v). k @ ''='' @ v) (LabelsForVault vault))"
  proof -
    have "mset (map (\<lambda>(k, v). k @ ''='' @ v) v1) =
        mset (map (\<lambda>(k, v). k @ ''='' @ v) (LabelsForVault vault))"
      using m1 by (metis mset_map)
    then show ?thesis by (simp add: sortStrings_def appendLabels_map)
  qed
  have tail: "\<exists>front. ToArgs usc vault v1 =
           front @ [''--k8s-secret-labels'', ''app.kubernetes.io/name=vault,vault_cr='' @ Name vault]"
    if "modeName (selectBackend usc) (Kubernetes usc) \<in> {''hsm-k8s'', ''k8s''}"
  proof (cases "selectBackend usc")
    case (HSMBackend c)
    with that have k: "hsmK8s (Kubernetes usc)" by (simp split: if_splits)
    have "ToArgs usc vault v1 =
      (optionArgs (Options usc) @
       [''--mode'', ''hsm-k8s'', ''--hsm-module-path'', ModulePath c,
        ''--hsm-slot-id'', Sprint (SlotID c), ''--hsm-key-label'', KeyLabel c]
       @ (if Pin c = '''' then [] else [''--hsm-pin'', Pin c])
       @ (if TokenLabel c = '''' then [] else [''--hsm-token-label'', TokenLabel c])
       @ [''--k8s-secret-namespace'', SecretNamespace (Kubernetes usc),
          ''--k8s-secret-name'', SecretName (Kubernetes usc)])
      @ [''--k8s-secret-labels'', ''app.kubernetes.io/name=vault,vault_cr='' @ Name vault]"
      using k l1 by (simp add: ToArgs_refines HSMBackend backendArgs_def)
    then show ?thesis by blast
  next
    case KubernetesBackend
    have "ToArgs usc vault v1 =
      (optionArgs (Options usc) @
       [''--mode'', ''k8s'',
        ''--k8s-secret-namespace'',
        (if SecretNamespace (Kubernetes usc) = '''' then Namespace vault
         else SecretNamespace (Kubernetes usc)),
        ''--k8s-secret-name'',
        (if SecretName (Kubernetes usc) = '''' then Name vault @ ''-unseal-keys''
         else SecretName (Kubernetes usc))])
      @ [''--k8s-secret-labels'', ''app.kubernetes.io/name=vault,vault_cr='' @ Name vault]"
      using l1 by (simp add: ToArgs_refines KubernetesBackend backendArgs_def)
    then show ?thesis by blast
  qed (use that in simp_all)
  show ?thesis
    using same srt perm l1 tail by (simp add: secretLabelsArg_def)
qed

theorem ToArgs_labels_deterministic_witness:
  "rangeOrder (LabelsForVault exampleVault) [(''vault_cr'', ''vault''), (''app.kubernetes.io/name'', ''vault'')]
   \<and> rangeOrder (LabelsForVault exampleVault) [(''app.kubernetes.io/name'', ''vault''), (''vault_cr'', ''vault'')]
   \<and> ToArgs zeroUnsealConfig exampleVault [(''vault_cr'', ''vault''), (''app.kubernetes.io/name'', ''vault'')]
       = ToArgs zeroUnsealConfig exampleVault [(''app.kubernetes.io/name'', ''vault''), (''vault_cr'', ''vault'')]
   \<and> ToArgs zeroUnsealConfig exampleVault [(''vault_cr'', ''vault''), (''app.kubernetes.io/name'', ''vault'')]
       = [''--mode'', ''k8s'', ''--k8s-secret-namespace'', ''default'',
          ''--k8s-secret-name'', ''vault-unseal-keys'',
          ''--k8s-secret-labels'', ''app.kubernetes.io/name=vault,vault_cr=vault'']"
proof -
  have r1: "rangeOrder (LabelsForVault exampleVault)
              [(''vault_cr'', ''vault''), (''app.kubernetes.io/name'', ''vault'')]"
    by (simp add: rangeOrder_def LabelsForVault_def exampleVault_def)
  have r2: "rangeOrder (LabelsForVault exampleVault)
              [(''app.kubernetes.io/name'', ''vault''), (''vault_cr'', ''vault'')]"
    by (simp add: rangeOrder_def LabelsForVault_def exampleVault_def)
  have eval: "ToArgs zeroUnsealConfig exampleVault
                [(''vault_cr'', ''vault''), (''app.kubernetes.io/name'', ''vault'')]
       = [''--mode'', ''k8s'', ''--k8s-secret-namespace'', ''default'',
          ''--k8s-secret-name'', ''vault-unseal-keys'',
          ''--k8s-secret-labels'', ''app.kubernetes.io/name=vault,vault_cr=vault'']"
    by (simp add: ToArgs_def zeroUnsealConfig_def exampleVault_def sortStrings_def)
  show ?thesis
    using ToArgs_labels_deterministic [OF r1 r2, of zeroUnsealConfig] r1 r2 eval by simp
qed

text \<open>
  C10. For every unseal configuration and cluster identity, the argument list returned by
  \<^verbatim>\<open>ToArgs\<close> is never empty and holds exactly one \<^verbatim>\<open>--mode\<close> flag with a backend
  mode name after it, not merely at most one: right after the option flags, which hold no
  \<^verbatim>\<open>--mode\<close> token, stands \<^verbatim>\<open>--mode\<close> followed by the mode name of the backend
  that the priority order selects, and then the flags of that backend. When none of the
  backend variants is set, the Kubernetes-secret default runs and emits \<^verbatim>\<open>--mode k8s\<close>,
  with the secret namespace defaulting to the namespace of the resource and the secret
  name defaulting to the name of the resource followed by \<^verbatim>\<open>-unseal-keys\<close>, unless
  the configuration overrides them.
\<close>

theorem ToArgs_exactly_one_mode:
  "ToArgs usc vault visited \<noteq> []
   \<and> modePairs (ToArgs usc vault visited) = 1
   \<and> ''--mode'' \<notin> set (optionArgs (Options usc))
   \<and> ToArgs usc vault visited =
       optionArgs (Options usc) @
       ''--mode'' #
       (if Google usc \<noteq> None then ''google-cloud-kms-gcs''
        else if Azure usc \<noteq> None then ''azure-key-vault''
        else if OCI usc \<noteq> None then ''oci''
        else if AWS usc \<noteq> None then ''aws-kms-s3''
        else if Alibaba usc \<noteq> None then ''alibaba-kms-oss''
        else if Vault usc \<noteq> None then ''vault''
        else if HSM usc \<noteq> None
          then (if SecretNamespace (Kubernetes usc) \<noteq> '''' \<and> SecretName (Kubernetes usc) \<noteq> ''''
                then ''hsm-k8s'' else ''hsm'')
        else ''k8s'') #
       modeFlags (selectBackend usc) (Kubernetes usc) vault visited
   \<and> (Google usc = None \<and> Azure usc = None \<and> OCI usc = None \<and> AWS usc = None \<and>
      Alibaba usc = None \<and> Vault usc = None \<and> HSM usc = None \<longrightarrow>
        ToArgs usc vault visited =
          optionArgs (Options usc) @
          [''--mode'', ''k8s'',
           ''--k8s-secret-namespace'',
           (if SecretNamespace (Kubernetes usc) \<noteq> '''' then SecretNamespace (Kubernetes usc)
            else Namespace vault),
           ''--k8s-secret-name'',
           (if SecretName (Kubernetes usc) \<noteq> '''' then SecretName (Kubernetes usc)
            else Name vault @ ''-unseal-keys''),
           ''--k8s-secret-labels'', Join (sortStrings (appendLabels [] visited)) '',''])"
proof -
  have split: "ToArgs usc vault visited =
      optionArgs (Options usc) @ backendArgs (selectBackend usc) (Kubernetes usc) vault visited"
    by (rule ToArgs_refines)
  have nonempty: "ToArgs usc vault visited \<noteq> []"
    by (simp add: split backendArgs_def)
  have pairs: "modePairs (ToArgs usc vault visited) = 1"
    by (simp add: split modePairs_append mode_notin_optionArgs modePairs_backendArgs)
  have name: "modeName (selectBackend usc) (Kubernetes usc) =
       (if Google usc \<noteq> None then ''google-cloud-kms-gcs''
        else if Azure usc \<noteq> None then ''azure-key-vault''
        else if OCI usc \<noteq> None then ''oci''
        else if AWS usc \<noteq> None then ''aws-kms-s3''
        else if Alibaba usc \<noteq> None then ''alibaba-kms-oss''
        else if Vault usc \<noteq> None then ''vault''
        else if HSM usc \<noteq> None
          then (if SecretNamespace (Kubernetes usc) \<noteq> '''' \<and> SecretName (Kubernetes usc) \<noteq> ''''
                then ''hsm-k8s'' else ''hsm'')
        else ''k8s'')"
    by (simp add: selectBackend_cases hsmK8s_def split: option.splits)
  have whole: "ToArgs usc vault visited =
       optionArgs (Options usc) @
       ''--mode'' # modeName (selectBackend usc) (Kubernetes usc) #
       modeFlags (selectBackend usc) (Kubernetes usc) vault visited"
    by (simp add: split backendArgs_def)
  have dflt: "ToArgs usc vault visited =
          optionArgs (Options usc) @
          [''--mode'', ''k8s'',
           ''--k8s-secret-namespace'',
           (if SecretNamespace (Kubernetes usc) \<noteq> '''' then SecretNamespace (Kubernetes usc)
            else Namespace vault),
           ''--k8s-secret-name'',
           (if SecretName (Kubernetes usc) \<noteq> '''' then SecretName (Kubernetes usc)
            else Name vault @ ''-unseal-keys''),
           ''--k8s-secret-labels'', Join (sortStrings (appendLabels [] visited)) '','']"
    if "Google usc = None \<and> Azure usc = None \<and> OCI usc = None \<and> AWS usc = None \<and>
      Alibaba usc = None \<and> Vault usc = None \<and> HSM usc = None"
    using that by (simp add: split selectBackend_cases backendArgs_def secretLabelsArg_def)
  show ?thesis
    using nonempty pairs mode_notin_optionArgs [of "Options usc"] whole dflt
    unfolding name by blast
qed

theorem ToArgs_exactly_one_mode_witness:
  "ToArgs (zeroUnsealConfig
             \<lparr>Options := \<lparr>PreFlightChecks = Some True, StoreRootToken = None,
                          SecretThreshold = None, SecretShares = Some 5\<rparr>,
              Kubernetes := \<lparr>SecretNamespace = '''', SecretName = ''keys''\<rparr>\<rparr>)
          exampleVault (LabelsForVault exampleVault)
     = [''--secret-shares'', ''5'', ''--mode'', ''k8s'', ''--k8s-secret-namespace'', ''default'',
        ''--k8s-secret-name'', ''keys'',
        ''--k8s-secret-labels'', ''app.kubernetes.io/name=vault,vault_cr=vault'']
   \<and> ToArgs (zeroUnsealConfig
             \<lparr>Kubernetes := \<lparr>SecretNamespace = ''ns'', SecretName = ''keys''\<rparr>,
              HSM := Some \<lparr>Daemon = True, ModulePath = ''/usr/lib/p11.so'', SlotID = 3,
                           TokenLabel = '''', Pin = ''1234'', KeyLabel = ''unseal''\<rparr>\<rparr>)
          exampleVault (LabelsForVault exampleVault)
     = [''--mode'', ''hsm-k8s'', ''--hsm-module-path'', ''/usr/lib/p11.so'', ''--hsm-slot-id'', ''3'',
        ''--hsm-key-label'', ''unseal'', ''--hsm-pin'', ''1234'',
        ''--k8s-secret-namespace'', ''ns'', ''--k8s-secret-name'', ''keys'',
        ''--k8s-secret-labels'', ''app.kubernetes.io/name=vault,vault_cr=vault'']"
proof -
  let ?k8s = "zeroUnsealConfig
             \<lparr>Options := \<lparr>PreFlightChecks = Some True, StoreRootToken = None,
                          SecretThreshold = None, SecretShares = Some 5\<rparr>,
              Kubernetes := \<lparr>SecretNamespace = '''', SecretName = ''keys''\<rparr>\<rparr>"
  let ?hsmConfig = "\<lparr>Daemon = True, ModulePath = ''/usr/lib/p11.so'', SlotID = 3,
                           TokenLabel = '''', Pin = ''1234'', KeyLabel = ''unseal''\<rparr>"
  let ?hsm = "zeroUnsealConfig
             \<lparr>Kubernetes := \<lparr>SecretNamespace = ''ns'', SecretName = ''keys''\<rparr>,
              HSM := Some ?hsmConfig\<rparr>"
  have sel: "Google ?k8s = None \<and> Azure ?k8s = None \<and> OCI ?k8s = None \<and> AWS ?k8s = None \<and>
      Alibaba ?k8s = None \<and> Vault ?k8s = None \<and> HSM ?k8s = None"
    by (simp add: zeroUnsealConfig_def)
  have labels: "Join (sortStrings (appendLabels [] (LabelsForVault exampleVault))) '','' =
      ''app.kubernetes.io/name=vault,vault_cr=vault''"
    by (simp add: LabelsForVault_def exampleVault_def sortStrings_def)
  have opts: "optionArgs (Options ?k8s) = [''--secret-shares'', ''5'']"
    by (simp add: zeroUnsealConfig_def optionArgs_def Sprint_def SprintNat.simps)
  from ToArgs_exactly_one_mode [of ?k8s exampleVault "LabelsForVault exampleVault"] sel
  have "ToArgs ?k8s exampleVault (LabelsForVault exampleVault) =
          optionArgs (Options ?k8s) @
          [''--mode'', ''k8s'',
           ''--k8s-secret-namespace'',
           (if SecretNamespace (Kubernetes ?k8s) \<noteq> '''' then SecretNamespace (Kubernetes ?k8s)
            else Namespace exampleVault),
           ''--k8s-secret-name'',
           (if SecretName (Kubernetes ?k8s) \<noteq> '''' then SecretName (Kubernetes ?k8s)
            else Name exampleVault @ ''-unseal-keys''),
           ''--k8s-secret-labels'',
           Join (sortStrings (appendLabels [] (LabelsForVault exampleVault))) '','']"
    by blast
  then have "ToArgs ?k8s exampleVault (LabelsForVault exampleVault) =
          [''--secret-shares'', ''5''] @
          [''--mode'', ''k8s'',
           ''--k8s-secret-namespace'',
           (if SecretNamespace (Kubernetes ?k8s) \<noteq> [] then SecretNamespace (Kubernetes ?k8s)
            else Namespace exampleVault),
           ''--k8s-secret-name'',
           (if SecretName (Kubernetes ?k8s) \<noteq> [] then SecretName (Kubernetes ?k8s)
            else Name exampleVault @ ''-unseal-keys''),
           ''--k8s-secret-labels'', ''app.kubernetes.io/name=vault,vault_cr=vault'']"
    by (simp only: opts labels)
  then have r1: "ToArgs ?k8s exampleVault (LabelsForVault exampleVault)
     = [''--secret-shares'', ''5'', ''--mode'', ''k8s'', ''--k8s-secret-namespace'', ''default'',
        ''--k8s-secret-name'', ''keys'',
        ''--k8s-secret-labels'', ''app.kubernetes.io/name=vault,vault_cr=vault'']"
    by (simp add: zeroUnsealConfig_def exampleVault_def)
  have b: "selectBackend ?hsm = HSMBackend ?hsmConfig"
    by (simp add: selectBackend_cases zeroUnsealConfig_def)
  have hopts: "optionArgs (Options ?hsm) = []"
    by (simp add: zeroUnsealConfig_def optionArgs_def)
  have hflags: "modeFlags (HSMBackend ?hsmConfig) (Kubernetes ?hsm) exampleVault
        (LabelsForVault exampleVault) =
      [''--hsm-module-path'', ''/usr/lib/p11.so'', ''--hsm-slot-id'', ''3'',
        ''--hsm-key-label'', ''unseal'', ''--hsm-pin'', ''1234'',
        ''--k8s-secret-namespace'', ''ns'', ''--k8s-secret-name'', ''keys'',
        ''--k8s-secret-labels'', ''app.kubernetes.io/name=vault,vault_cr=vault'']"
    using labels
    by (simp add: zeroUnsealConfig_def hsmK8s_def secretLabelsArg_def Sprint_def SprintNat.simps)
  from ToArgs_exactly_one_mode [of ?hsm exampleVault "LabelsForVault exampleVault"]
  have "ToArgs ?hsm exampleVault (LabelsForVault exampleVault) =
       optionArgs (Options ?hsm) @
       ''--mode'' #
       (if Google ?hsm \<noteq> None then ''google-cloud-kms-gcs''
        else if Azure ?hsm \<noteq> None then ''azure-key-vault''
        else if OCI ?hsm \<noteq> None then ''oci''
        else if AWS ?hsm \<noteq> None then ''aws-kms-s3''
        else if Alibaba ?hsm \<noteq> None then ''alibaba-kms-oss''
        else if Vault ?hsm \<noteq> None then ''vault''
        else if HSM ?hsm \<noteq> None
          then (if SecretNamespace (Kubernetes ?hsm) \<noteq> '''' \<and> SecretName (Kubernetes ?hsm) \<noteq> ''''
                then ''hsm-k8s'' else ''hsm'')
        else ''k8s'') #
       modeFlags (selectBackend ?hsm) (Kubernetes ?hsm) exampleVault (LabelsForVault exampleVault)"
    by blast
  then have r2: "ToArgs ?hsm exampleVault (LabelsForVault exampleVault)
     = [''--mode'', ''hsm-k8s'', ''--hsm-module-path'', ''/usr/lib/p11.so'', ''--hsm-slot-id'', ''3'',
        ''--hsm-key-label'', ''unseal'', ''--hsm-pin'', ''1234'',
        ''--k8s-secret-namespace'', ''ns'', ''--k8s-secret-name'', ''keys'',
        ''--k8s-secret-labels'', ''app.kubernetes.io/name=vault,vault_cr=vault'']"
    unfolding b hopts hflags by (simp add: zeroUnsealConfig_def)
  show ?thesis
    using r1 r2 by simp
qed

section \<open>The claims about the configuration document\<close>

text \<open>
  C2, as stated: for every configuration document, \<^verbatim>\<open>HasHAStorage\<close> is true if and only
  if the storage backend type is in the table and asserts \<open>ha_enabled\<close> (or is \<open>consul\<close>
  or \<open>raft\<close>), or the \<open>ha_storage\<close> stanza is not empty. \<^verbatim>\<open>HasHAStorage\<close> asks
  \<^verbatim>\<open>MapKeys\<close> for the storage type twice, once for the table and once for
  \<open>ha_enabled\<close>, and with two keys in the storage stanza the two answers can differ: for
  the storage stanza \<^verbatim>\<open>{"etcd": {}, "s3": {"ha_enabled": true}}\<close> the verdict is true
  when the first answer is \<open>etcd\<close> and the second is \<open>s3\<close>, although the condition
  fails for \<open>etcd\<close> and fails for \<open>s3\<close>.
\<close>

theorem HasHAStorage_two_keys_counterexample:
  "map fst (stanza noStringMaps (document (withConfig twoKeyConfig)) ''storage'') = [''etcd'', ''s3'']
   \<and> GetStorageType noStringMaps 0 (withConfig twoKeyConfig) = ''etcd''
   \<and> GetStorageType noStringMaps 1 (withConfig twoKeyConfig) = ''s3''
   \<and> HasHAStorage noStringMaps 0 1 (withConfig twoKeyConfig)
   \<and> \<not> hasHA noStringMaps (document (withConfig twoKeyConfig)) ''etcd''
   \<and> \<not> hasHA noStringMaps (document (withConfig twoKeyConfig)) ''s3''"
proof -
  have doc: "document (withConfig twoKeyConfig) = twoKeyConfig"
    by (simp add: document_def withConfig_def)
  have st: "stanza noStringMaps twoKeyConfig ''storage'' =
      [(''etcd'', JObject []), (''s3'', JObject [(''ha_enabled'', JBool True)])]"
    by (simp add: stanza_def asMap_def twoKeyConfig_def)
  have ha: "stanza noStringMaps twoKeyConfig ''ha_storage'' = []"
    by (simp add: stanza_def asMap_def twoKeyConfig_def)
  have t0: "GetStorageType noStringMaps 0 (withConfig twoKeyConfig) = ''etcd''"
    by (simp add: GetStorageType_def getStorage_stanza doc st MapKeys_def)
  have t1: "GetStorageType noStringMaps 1 (withConfig twoKeyConfig) = ''s3''"
    by (simp add: GetStorageType_def getStorage_stanza doc st MapKeys_def)
  have verdict: "HasHAStorage noStringMaps 0 1 (withConfig twoKeyConfig)"
    unfolding HasHAStorage_unfold t0 t1 getStorage_stanza getHAStorage_stanza doc st ha
    by (simp add: HAStorageTypes_def index_def ToStringMap_def ToBool_def)
  have etcd: "\<not> hasHA noStringMaps twoKeyConfig ''etcd''"
    unfolding hasHA_def st ha by (simp add: asMap_def assertsTrue_def)
  have s3: "\<not> hasHA noStringMaps twoKeyConfig ''s3''"
    unfolding hasHA_def st ha by (simp add: haTypes_def)
  show ?thesis
    unfolding doc using st t0 t1 verdict etcd s3 by simp
qed

text \<open>
  C2, amended: for every configuration document whose storage stanza has at most one key,
  the storage type \<^verbatim>\<open>GetStorageType\<close> returns is that key (the empty string for an
  empty or missing stanza), whatever order \<^verbatim>\<open>MapKeys\<close> takes, and \<^verbatim>\<open>HasHAStorage\<close>
  is true if and only if either that type is in the table of HA storage types and the
  parameters of the storage backend assert \<open>ha_enabled\<close>, the types \<open>consul\<close> and
  \<open>raft\<close> being HA without it, or the \<open>ha_storage\<close> stanza is not empty, whatever its
  type. For the storage stanza \<^verbatim>\<open>{"raft": {}}\<close> and no \<open>ha_storage\<close> the verdict is
  true and the storage type is \<open>raft\<close>.
\<close>

theorem HasHAStorage_verdict:
  "length (stanza j2o (document spec) ''storage'') \<le> 1 \<Longrightarrow>
   GetStorageType j2o order1 spec = backendType (stanza j2o (document spec) ''storage'')
   \<and> (HasHAStorage j2o order1 order2 spec \<longleftrightarrow>
        hasHA j2o (document spec) (backendType (stanza j2o (document spec) ''storage'')))
   \<and> (map_of (document spec) ''storage'' = Some (JObject [(''raft'', JObject [])]) \<and>
      map_of (document spec) ''ha_storage'' = None \<longrightarrow>
        HasHAStorage j2o order1 order2 spec \<and> GetStorageType j2o order1 spec = ''raft'')"
proof -
  let ?st = "stanza j2o (document spec) ''storage''"
  assume short: "length ?st \<le> 1"
  have type: "GetStorageType j2o order spec = backendType ?st" for order
  proof (cases ?st)
    case Nil
    then show ?thesis
      by (simp add: GetStorageType_def getStorage_stanza MapKeys_def backendType_def)
  next
    case (Cons e rest)
    with short have single: "?st = [(fst e, snd e)]" by simp
    have "GetStorageType j2o order spec = fst e"
      unfolding GetStorageType_def getStorage_stanza single by (simp add: MapKeys_def)
    then show ?thesis
      unfolding single by (simp add: backendType_def split: prod.splits)
  qed
  have verdict: "HasHAStorage j2o order1 order2 spec \<longleftrightarrow> hasHA j2o (document spec) (backendType ?st)"
    unfolding HasHAStorage_unfold type HAStorageTypes_haTypes getStorage_stanza getHAStorage_stanza
      ToBool_index ToStringMap_index hasHA_def
    by blast
  have raft: "HasHAStorage j2o order1 order2 spec \<and> GetStorageType j2o order1 spec = ''raft''"
    if "map_of (document spec) ''storage'' = Some (JObject [(''raft'', JObject [])]) \<and>
        map_of (document spec) ''ha_storage'' = None"
  proof -
    from that have st: "?st = [(''raft'', JObject [])]"
      by (simp add: stanza_def asMap_def)
    then show ?thesis
      unfolding verdict type by (simp add: backendType_def hasHA_def haTypes_def)
  qed
  show ?thesis
    using type verdict raft by blast
qed

theorem HasHAStorage_verdict_witness:
  "HasHAStorage noStringMaps 0 1 (withConfig [(''storage'', JObject [(''raft'', JObject [])])])
   \<and> GetStorageType noStringMaps 1 (withConfig [(''storage'', JObject [(''raft'', JObject [])])]) = ''raft''
   \<and> HasHAStorage noStringMaps 0 1
       (withConfig [(''storage'', JObject [(''etcd'', JObject [(''ha_enabled'', JString ''true'')])])])
   \<and> \<not> HasHAStorage noStringMaps 0 1
       (withConfig [(''storage'', JObject [(''etcd'', JObject [(''ha_enabled'', JBool False)])])])
   \<and> \<not> HasHAStorage noStringMaps 0 1
       (withConfig [(''storage'', JObject [(''file'', JObject [(''ha_enabled'', JBool True)])])])
   \<and> HasHAStorage noStringMaps 0 1
       (withConfig [(''storage'', JObject [(''file'', JObject [])]),
                    (''ha_storage'', JObject [(''zookeeper'', JObject [])])])
   \<and> \<not> HasHAStorage noStringMaps 0 1 (withConfig [(''listener'', JObject [])])"
proof -
  let ?raft = "[(''storage'', JObject [(''raft'', JObject [])])]"
  let ?etcdOn = "[(''storage'', JObject [(''etcd'', JObject [(''ha_enabled'', JString ''true'')])])]"
  let ?etcdOff = "[(''storage'', JObject [(''etcd'', JObject [(''ha_enabled'', JBool False)])])]"
  let ?file = "[(''storage'', JObject [(''file'', JObject [(''ha_enabled'', JBool True)])])]"
  let ?second = "[(''storage'', JObject [(''file'', JObject [])]),
                  (''ha_storage'', JObject [(''zookeeper'', JObject [])])]"
  let ?none = "[(''listener'', JObject [])]"
  have doc: "document (withConfig d) = d" for d
    by (simp add: document_def withConfig_def)
  have short: "length (stanza noStringMaps (document (withConfig ?raft)) ''storage'') \<le> 1"
    "length (stanza noStringMaps (document (withConfig ?etcdOn)) ''storage'') \<le> 1"
    "length (stanza noStringMaps (document (withConfig ?etcdOff)) ''storage'') \<le> 1"
    "length (stanza noStringMaps (document (withConfig ?file)) ''storage'') \<le> 1"
    "length (stanza noStringMaps (document (withConfig ?second)) ''storage'') \<le> 1"
    "length (stanza noStringMaps (document (withConfig ?none)) ''storage'') \<le> 1"
    by (simp_all add: doc stanza_def asMap_def)
  note v = HasHAStorage_verdict [where ?j2o = noStringMaps and ?order1.0 = 0 and ?order2.0 = 1]
  have "HasHAStorage noStringMaps 0 1 (withConfig ?raft)"
    using v [OF short(1)]
    by (simp add: doc stanza_def asMap_def backendType_def hasHA_def haTypes_def assertsTrue_def)
  moreover have "GetStorageType noStringMaps 1 (withConfig ?raft) = ''raft''"
    using HasHAStorage_verdict [OF short(1), of 1 0]
    by (simp add: doc stanza_def asMap_def backendType_def)
  moreover have "HasHAStorage noStringMaps 0 1 (withConfig ?etcdOn)"
    using v [OF short(2)]
    by (simp add: doc stanza_def asMap_def backendType_def hasHA_def haTypes_def assertsTrue_def)
  moreover have "\<not> HasHAStorage noStringMaps 0 1 (withConfig ?etcdOff)"
    using v [OF short(3)]
    by (simp add: doc stanza_def asMap_def backendType_def hasHA_def haTypes_def assertsTrue_def)
  moreover have "\<not> HasHAStorage noStringMaps 0 1 (withConfig ?file)"
    using v [OF short(4)]
    by (simp add: doc stanza_def asMap_def backendType_def hasHA_def haTypes_def assertsTrue_def)
  moreover have "HasHAStorage noStringMaps 0 1 (withConfig ?second)"
    using v [OF short(5)]
    by (simp add: doc stanza_def asMap_def backendType_def hasHA_def haTypes_def assertsTrue_def)
  moreover have "\<not> HasHAStorage noStringMaps 0 1 (withConfig ?none)"
    using v [OF short(6)]
    by (simp add: doc stanza_def asMap_def backendType_def hasHA_def haTypes_def assertsTrue_def)
  ultimately show ?thesis by blast
qed

text \<open>
  C4, as stated: when service registration is enabled and the storage is HA, the merge of
  the \<open>service_registration.kubernetes.namespace\<close> fragment never overwrites a key the
  user document already defines. \<^verbatim>\<open>mergo.Merge\<close> without options fills a destination
  key whose value is empty, and a JSON \<^verbatim>\<open>null\<close> is an empty value: a document that
  defines \<open>service_registration\<close> as \<^verbatim>\<open>null\<close> gets the fragment in its place.
\<close>

theorem ConfigJSON_merge_counterexample:
  "lookupPath
     (JObject [(''storage'', JObject [(''raft'', JObject [])]), (''service_registration'', JNull)])
     [''service_registration''] = Some JNull
   \<and> ConfigJSON noStringMaps 0 0
       (registeredCluster
          [(''storage'', JObject [(''raft'', JObject [])]), (''service_registration'', JNull)])
     = Inr (JObject
         [(''storage'', JObject [(''raft'', JObject [])]),
          (''service_registration'',
             JObject [(''kubernetes'', JObject [(''namespace'', JString ''default'')])])])
   \<and> lookupPath
       (JObject
         [(''storage'', JObject [(''raft'', JObject [])]),
          (''service_registration'',
             JObject [(''kubernetes'', JObject [(''namespace'', JString ''default'')])])])
       [''service_registration'']
     \<noteq> Some JNull"
proof -
  let ?config = "[(''storage'', JObject [(''raft'', JObject [])]), (''service_registration'', JNull)]"
  have ha: "HasHAStorage noStringMaps 0 0 (Spec (registeredCluster ?config))"
    by (simp add: HasHAStorage_unfold GetStorageType_def getStorage_def GetVaultConfig_def
          Unmarshal_def registeredCluster_def index_def ToStringMap_def MapKeys_def
          HAStorageTypes_def)
  have "ConfigJSON noStringMaps 0 0 (registeredCluster ?config) =
      Inr (JObject (deepMerge ?config (serviceRegistration ''default'')))"
    using ha
    by (simp add: ConfigJSON_def Unmarshal_def marshalMap_def Merge_def registeredCluster_def
          exampleCluster_def)
  then show ?thesis
    by (simp add: serviceRegistration_def)
qed

text \<open>
  C4, amended. \<^verbatim>\<open>ConfigJSON\<close> returns an error exactly when the decoding of the user
  document reports one: the bytes are not JSON, the value is neither an object nor
  \<^verbatim>\<open>null\<close>, or a number of the document is outside \<^verbatim>\<open>float64\<close>; the merge itself adds
  no error. Otherwise, when service registration is disabled or the storage is not HA, it
  returns the decoded document with no fragment added. When service registration is
  enabled and the storage is HA, it returns the decoded document with the
  \<open>service_registration.kubernetes.namespace\<close> fragment deep-merged into it:

  \<^item> when the user document does not block that path (the walk down the path meets only
    objects, missing keys and empty values), the namespace of the resource stands under
    the path afterwards; an object met on the way is merged into, and an empty value met
    on the way (\<^verbatim>\<open>null\<close>, \<^verbatim>\<open>false\<close>, \<^verbatim>\<open>0\<close>, the empty string, the empty list,
    the empty object) is replaced;
  \<^item> when the user document blocks the path (a non-empty value that is not an object on
    the way, or a non-empty value at the end), the document is returned as it is: the
    conflict is a silent no-op;
  \<^item> in both cases no key of the user document is removed at any depth, every value off
    the path is unchanged, and a non-empty value on the path is respected: an object
    stays an object and any other value is unchanged.
\<close>

theorem ConfigJSON_merge:
  "(Config (Spec vault) = Malformed \<longrightarrow> ConfigJSON j2o order1 order2 vault = Inl SyntaxError)
   \<and> (\<forall>v outOfRange. Config (Spec vault) = Decodes v outOfRange \<and> v \<noteq> JNull \<and> (\<forall>m. v \<noteq> JObject m) \<longrightarrow>
        ConfigJSON j2o order1 order2 vault = Inl UnmarshalTypeError)
   \<and> (\<forall>config. Config (Spec vault) = Decodes (JObject config) True \<longrightarrow>
        ConfigJSON j2o order1 order2 vault = Inl UnmarshalTypeError)
   \<and> (\<forall>outOfRange. Config (Spec vault) = Decodes JNull outOfRange \<longrightarrow>
        ConfigJSON j2o order1 order2 vault = Inr JNull)
   \<and> (\<forall>config. Config (Spec vault) = Decodes (JObject config) False \<longrightarrow>
        (\<not> (ServiceRegistrationEnabled (Spec vault) \<and> HasHAStorage j2o order1 order2 (Spec vault)) \<longrightarrow>
           ConfigJSON j2o order1 order2 vault = Inr (JObject config))
      \<and> (ServiceRegistrationEnabled (Spec vault) \<and> HasHAStorage j2o order1 order2 (Spec vault) \<longrightarrow>
           (\<exists>merged.
              ConfigJSON j2o order1 order2 vault = Inr (JObject merged)
            \<and> merged = deepMerge config (serviceRegistration (Namespace vault))
            \<and> (\<not> blocked (JObject config) registrationPath \<longrightarrow>
                 lookupPath (JObject merged) registrationPath = Some (JString (Namespace vault)))
            \<and> (blocked (JObject config) registrationPath \<longrightarrow> merged = config)
            \<and> (\<forall>path. \<not> prefix path registrationPath \<longrightarrow>
                   lookupPath (JObject merged) path = lookupPath (JObject config) path)
            \<and> (\<forall>path v. lookupPath (JObject config) path = Some v \<longrightarrow>
                   (\<exists>v'. lookupPath (JObject merged) path = Some v' \<and>
                         (\<not> isEmptyValue v \<longrightarrow> respected v v'))))))"
proof (intro conjI allI impI)
  assume "Config (Spec vault) = Malformed"
  then show "ConfigJSON j2o order1 order2 vault = Inl SyntaxError"
    by (simp add: ConfigJSON_def Unmarshal_def)
next
  fix v outOfRange
  assume "Config (Spec vault) = Decodes v outOfRange \<and> v \<noteq> JNull \<and> (\<forall>m. v \<noteq> JObject m)"
  then show "ConfigJSON j2o order1 order2 vault = Inl UnmarshalTypeError"
    by (cases v) (simp_all add: ConfigJSON_def Unmarshal_def)
next
  fix config
  assume "Config (Spec vault) = Decodes (JObject config) True"
  then show "ConfigJSON j2o order1 order2 vault = Inl UnmarshalTypeError"
    by (simp add: ConfigJSON_def Unmarshal_def)
next
  fix outOfRange
  assume c: "Config (Spec vault) = Decodes JNull outOfRange"
  then have "\<not> HasHAStorage j2o order1 order2 (Spec vault)"
    by (rule HasHAStorage_null)
  with c show "ConfigJSON j2o order1 order2 vault = Inr JNull"
    by (simp add: ConfigJSON_def Unmarshal_def marshalMap_def)
next
  fix config
  assume c: "Config (Spec vault) = Decodes (JObject config) False"
    and off: "\<not> (ServiceRegistrationEnabled (Spec vault) \<and> HasHAStorage j2o order1 order2 (Spec vault))"
  then show "ConfigJSON j2o order1 order2 vault = Inr (JObject config)"
    by (auto simp: ConfigJSON_def Unmarshal_def marshalMap_def)
next
  fix config
  let ?merged = "deepMerge config (serviceRegistration (Namespace vault))"
  assume c: "Config (Spec vault) = Decodes (JObject config) False"
    and on: "ServiceRegistrationEnabled (Spec vault) \<and> HasHAStorage j2o order1 order2 (Spec vault)"
  have result: "ConfigJSON j2o order1 order2 vault = Inr (JObject ?merged)"
    using c on by (simp add: ConfigJSON_def Unmarshal_def marshalMap_def Merge_def)
  have path: "registrationPath \<noteq> []"
    by (simp add: registrationPath_def)
  have fill: "lookupPath (JObject ?merged) registrationPath = Some (JString (Namespace vault))"
    if "\<not> blocked (JObject config) registrationPath"
    unfolding serviceRegistration_spine using path that by (rule deepMerge_spine_fill)
  have stay: "?merged = config" if "blocked (JObject config) registrationPath"
    unfolding serviceRegistration_spine using that by (rule deepMerge_spine_stay)
  have frame: "lookupPath (JObject ?merged) p = lookupPath (JObject config) p"
    if "\<not> prefix p registrationPath" for p
    unfolding serviceRegistration_spine using that by (rule deepMerge_spine_frame)
  have keeps: "\<exists>v'. lookupPath (JObject ?merged) p = Some v' \<and>
      (\<not> isEmptyValue v \<longrightarrow> respected v v')"
    if "lookupPath (JObject config) p = Some v" for p v
    unfolding serviceRegistration_spine using that by (rule deepMerge_spine_keeps)
  show "\<exists>merged.
              ConfigJSON j2o order1 order2 vault = Inr (JObject merged)
            \<and> merged = deepMerge config (serviceRegistration (Namespace vault))
            \<and> (\<not> blocked (JObject config) registrationPath \<longrightarrow>
                 lookupPath (JObject merged) registrationPath = Some (JString (Namespace vault)))
            \<and> (blocked (JObject config) registrationPath \<longrightarrow> merged = config)
            \<and> (\<forall>path. \<not> prefix path registrationPath \<longrightarrow>
                   lookupPath (JObject merged) path = lookupPath (JObject config) path)
            \<and> (\<forall>path v. lookupPath (JObject config) path = Some v \<longrightarrow>
                   (\<exists>v'. lookupPath (JObject merged) path = Some v' \<and>
                         (\<not> isEmptyValue v \<longrightarrow> respected v v')))"
  proof (intro exI [of _ ?merged] conjI allI impI)
    show "ConfigJSON j2o order1 order2 vault = Inr (JObject ?merged)" by (rule result)
  qed (simp_all add: fill stay frame keeps)
qed

theorem ConfigJSON_merge_witness:
  "ConfigJSON noStringMaps 0 0
     (registeredCluster
        [(''storage'', JObject [(''raft'', JObject [])]),
         (''service_registration'', JObject [(''kubernetes'', JObject [(''pod'', JString ''p0'')])]),
         (''ui'', JBool True)])
     = Inr (JObject
        [(''storage'', JObject [(''raft'', JObject [])]),
         (''service_registration'',
            JObject [(''kubernetes'',
                      JObject [(''pod'', JString ''p0''), (''namespace'', JString ''default'')])]),
         (''ui'', JBool True)])
   \<and> ConfigJSON noStringMaps 0 0
       (registeredCluster
          [(''storage'', JObject [(''raft'', JObject [])]),
           (''service_registration'',
              JObject [(''kubernetes'', JObject [(''namespace'', JString ''prod'')])])])
     = Inr (JObject
          [(''storage'', JObject [(''raft'', JObject [])]),
           (''service_registration'',
              JObject [(''kubernetes'', JObject [(''namespace'', JString ''prod'')])])])
   \<and> ConfigJSON noStringMaps 0 0
       (registeredCluster
          [(''storage'', JObject [(''file'', JObject [])]), (''ui'', JBool True)])
     = Inr (JObject [(''storage'', JObject [(''file'', JObject [])]), (''ui'', JBool True)])
   \<and> ConfigJSON noStringMaps 0 0
       (outOfRangeCluster [(''storage'', JObject [(''raft'', JObject [])]), (''n'', JNull)])
     = Inl UnmarshalTypeError"
proof -
  let ?raft = "[(''storage'', JObject [(''raft'', JObject [])]),
         (''service_registration'', JObject [(''kubernetes'', JObject [(''pod'', JString ''p0'')])]),
         (''ui'', JBool True)]"
  let ?prod = "[(''storage'', JObject [(''raft'', JObject [])]),
           (''service_registration'',
              JObject [(''kubernetes'', JObject [(''namespace'', JString ''prod'')])])]"
  let ?file = "[(''storage'', JObject [(''file'', JObject [])]), (''ui'', JBool True)]"
  let ?big = "[(''storage'', JObject [(''raft'', JObject [])]), (''n'', JNull)]"
  have c: "Config (Spec (registeredCluster d)) = Decodes (JObject d) False"
    and e: "ServiceRegistrationEnabled (Spec (registeredCluster d))"
    and n: "Namespace (registeredCluster d) = ''default''" for d
    by (simp_all add: registeredCluster_def exampleCluster_def)
  have cbig: "Config (Spec (outOfRangeCluster ?big)) = Decodes (JObject ?big) True"
    by (simp add: outOfRangeCluster_def)
  have ha1: "HasHAStorage noStringMaps 0 0 (Spec (registeredCluster ?raft))"
    and ha2: "HasHAStorage noStringMaps 0 0 (Spec (registeredCluster ?prod))"
    by (simp_all add: HasHAStorage_unfold GetStorageType_def getStorage_def GetVaultConfig_def
          Unmarshal_def registeredCluster_def index_def ToStringMap_def MapKeys_def
          HAStorageTypes_def)
  have noha: "\<not> HasHAStorage noStringMaps 0 0 (Spec (registeredCluster ?file))"
    by (simp add: HasHAStorage_unfold GetStorageType_def getStorage_def getHAStorage_def
          GetVaultConfig_def Unmarshal_def registeredCluster_def index_def ToStringMap_def
          MapKeys_def HAStorageTypes_def)
  have b: "blocked (JObject ?prod) registrationPath"
    by (simp add: registrationPath_def)
  note m1 = ConfigJSON_merge [of "registeredCluster ?raft" noStringMaps 0 0,
    THEN conjunct2, THEN conjunct2, THEN conjunct2, THEN conjunct2, rule_format, OF c [of ?raft]]
  note m2 = ConfigJSON_merge [of "registeredCluster ?prod" noStringMaps 0 0,
    THEN conjunct2, THEN conjunct2, THEN conjunct2, THEN conjunct2, rule_format, OF c [of ?prod]]
  note m3 = ConfigJSON_merge [of "registeredCluster ?file" noStringMaps 0 0,
    THEN conjunct2, THEN conjunct2, THEN conjunct2, THEN conjunct2, rule_format, OF c [of ?file]]
  note m4 = ConfigJSON_merge [of "outOfRangeCluster ?big" noStringMaps 0 0,
    THEN conjunct2, THEN conjunct2, THEN conjunct1, rule_format, OF cbig]
  from m1 e [of ?raft] ha1 obtain merged1 where
    "ConfigJSON noStringMaps 0 0 (registeredCluster ?raft) = Inr (JObject merged1)"
    and "merged1 = deepMerge ?raft (serviceRegistration (Namespace (registeredCluster ?raft)))"
    by blast
  then have r1: "ConfigJSON noStringMaps 0 0 (registeredCluster ?raft) =
      Inr (JObject
        [(''storage'', JObject [(''raft'', JObject [])]),
         (''service_registration'',
            JObject [(''kubernetes'',
                      JObject [(''pod'', JString ''p0''), (''namespace'', JString ''default'')])]),
         (''ui'', JBool True)])"
    unfolding n by (simp add: serviceRegistration_def)
  from m2 e [of ?prod] ha2 obtain merged2 where
    "ConfigJSON noStringMaps 0 0 (registeredCluster ?prod) = Inr (JObject merged2)"
    and "blocked (JObject ?prod) registrationPath \<longrightarrow> merged2 = ?prod"
    by blast
  with b have r2: "ConfigJSON noStringMaps 0 0 (registeredCluster ?prod) = Inr (JObject ?prod)"
    by simp
  from m3 noha
  have r3: "ConfigJSON noStringMaps 0 0 (registeredCluster ?file) = Inr (JObject ?file)"
    by blast
  note r4 = m4
  show ?thesis
    using r1 r2 r3 r4 by simp
qed

section \<open>The claims about the version, the expiry threshold and the ingress\<close>



text \<open>
  C8. \<^verbatim>\<open>GetTLSExpiryThreshold\<close> returns the parsed duration when the threshold string
  parses (the empty string does not parse for \<^verbatim>\<open>time.ParseDuration\<close>), and the
  default of 168 hours both when the string is empty and when it does not parse. In the last case the parse error is written to the log, once, and not returned:
  the function has no error result, so a threshold that does not parse never blocks the
  resolution. 168 hours are 604800000000000 nanoseconds, within \<^verbatim>\<open>int64\<close>.
\<close>

theorem GetTLSExpiryThreshold_cases:
  "(TLSExpiryThreshold spec = '''' \<longrightarrow>
      GetTLSExpiryThreshold ParseDuration spec = (Hour * 168, []))
   \<and> (\<forall>duration. TLSExpiryThreshold spec \<noteq> '''' \<and>
        ParseDuration (TLSExpiryThreshold spec) = Inr duration \<longrightarrow>
        GetTLSExpiryThreshold ParseDuration spec = (duration, []))
   \<and> (\<forall>err. TLSExpiryThreshold spec \<noteq> '''' \<and>
        ParseDuration (TLSExpiryThreshold spec) = Inl err \<longrightarrow>
        GetTLSExpiryThreshold ParseDuration spec =
          (Hour * 168,
           [\<lparr>logError = err, logMessage = ''using default threshold due to parse error'',
             logKeysAndValues = [''tlsExpiryThreshold'', TLSExpiryThreshold spec]\<rparr>]))
   \<and> ((\<exists>err. ParseDuration [] = Inl err) \<longrightarrow>
        (\<forall>duration. ParseDuration (TLSExpiryThreshold spec) = Inr duration \<longrightarrow>
           GetTLSExpiryThreshold ParseDuration spec = (duration, [])))
   \<and> sint (Hour * 168) = 168 * 60 * 60 * 1000000000"
  by (auto simp: GetTLSExpiryThreshold_def Hour_def)

theorem GetTLSExpiryThreshold_cases_witness:
  "GetTLSExpiryThreshold exampleParseDuration (zeroVaultSpec\<lparr>TLSExpiryThreshold := ''24h''\<rparr>)
     = (86400000000000, [])
   \<and> fst (GetTLSExpiryThreshold exampleParseDuration (zeroVaultSpec\<lparr>TLSExpiryThreshold := ''1w''\<rparr>))
     = 604800000000000
   \<and> length (snd (GetTLSExpiryThreshold exampleParseDuration
                     (zeroVaultSpec\<lparr>TLSExpiryThreshold := ''1w''\<rparr>))) = 1
   \<and> GetTLSExpiryThreshold exampleParseDuration zeroVaultSpec = (604800000000000, [])"
  using
    GetTLSExpiryThreshold_cases [of "zeroVaultSpec\<lparr>TLSExpiryThreshold := ''24h''\<rparr>" exampleParseDuration]
    GetTLSExpiryThreshold_cases [of "zeroVaultSpec\<lparr>TLSExpiryThreshold := ''1w''\<rparr>" exampleParseDuration]
    GetTLSExpiryThreshold_cases [of zeroVaultSpec exampleParseDuration]
  by (simp add: exampleParseDuration_def zeroVaultSpec_def Hour_def)

text \<open>
  C9. For a resource with an ingress specification, \<^verbatim>\<open>GetIngress\<close> returns the ingress
  it has stored back into the resource. When the ingress declares no rule and no default
  backend, the default backend becomes the service named after the resource on port
  8200, and otherwise the default backend is left as declared. When TLS is not disabled,
  the three backend-protocol annotations are set whatever the user gave for them, and
  every other annotation of the user is kept; when TLS is disabled the annotations are
  the user's, the empty map standing for a missing one.
\<close>

theorem GetIngress_defaults:
  "Ingress (Spec vault) = Some ingress \<Longrightarrow>
   (\<exists>result annotations.
      fst (GetIngress j2o vault) = Some result
    \<and> Ingress (Spec (snd (GetIngress j2o vault))) = Some result
    \<and> (Rules (Ingress_Spec ingress) = [] \<and> DefaultBackend (Ingress_Spec ingress) = None \<longrightarrow>
         DefaultBackend (Ingress_Spec result) =
           Some \<lparr>Service = Some \<lparr>Service_Name = Name vault,
                                  Port = \<lparr>Port_Name = '''', Number = 8200\<rparr>\<rparr>,
                 Resource = None\<rparr>)
    \<and> (\<not> (Rules (Ingress_Spec ingress) = [] \<and> DefaultBackend (Ingress_Spec ingress) = None) \<longrightarrow>
         DefaultBackend (Ingress_Spec result) = DefaultBackend (Ingress_Spec ingress))
    \<and> Rules (Ingress_Spec result) = Rules (Ingress_Spec ingress)
    \<and> TLS (Ingress_Spec result) = TLS (Ingress_Spec ingress)
    \<and> IngressClassName (Ingress_Spec result) = IngressClassName (Ingress_Spec ingress)
    \<and> Annotations result = Some annotations
    \<and> (\<not> IsTLSDisabled j2o (Spec vault) \<longrightarrow>
         annotations ''nginx.ingress.kubernetes.io/backend-protocol'' = Some ''HTTPS''
       \<and> annotations ''ingress.kubernetes.io/protocol'' = Some ''https''
       \<and> annotations ''ingress.kubernetes.io/secure-backends'' = Some ''true''
       \<and> (\<forall>key. key \<noteq> ''nginx.ingress.kubernetes.io/backend-protocol'' \<and>
                key \<noteq> ''ingress.kubernetes.io/protocol'' \<and>
                key \<noteq> ''ingress.kubernetes.io/secure-backends'' \<longrightarrow>
                annotations key =
                  (case Annotations ingress of None \<Rightarrow> None | Some user \<Rightarrow> user key)))
    \<and> (IsTLSDisabled j2o (Spec vault) \<longrightarrow>
         annotations = (case Annotations ingress of None \<Rightarrow> Map.empty | Some user \<Rightarrow> user)))"
  by (cases "Annotations ingress") (simp_all add: GetIngress_def Let_def)

theorem GetIngress_defaults_witness:
  "map_option (\<lambda>r. DefaultBackend (Ingress_Spec r))
     (fst (GetIngress noStringMaps
             (exampleCluster\<lparr>Spec := zeroVaultSpec\<lparr>Config := Decodes raftConfig False,
                                                    Ingress := Some exampleIngress\<rparr>\<rparr>)))
     = Some (Some \<lparr>Service = Some \<lparr>Service_Name = ''vault'',
                                    Port = \<lparr>Port_Name = '''', Number = 8200\<rparr>\<rparr>,
                   Resource = None\<rparr>)
   \<and> map_option (\<lambda>r. map_option (\<lambda>a. (a ''team'', a ''ingress.kubernetes.io/protocol'',
                                         a ''nginx.ingress.kubernetes.io/backend-protocol'',
                                         a ''ingress.kubernetes.io/secure-backends''))
                        (Annotations r))
     (fst (GetIngress noStringMaps
             (exampleCluster\<lparr>Spec := zeroVaultSpec\<lparr>Config := Decodes raftConfig False,
                                                    Ingress := Some exampleIngress\<rparr>\<rparr>)))
     = Some (Some (Some ''secrets'', Some ''https'', Some ''HTTPS'', Some ''true''))"
proof -
  let ?vault = "exampleCluster\<lparr>Spec := zeroVaultSpec\<lparr>Config := Decodes raftConfig False,
                                                       Ingress := Some exampleIngress\<rparr>\<rparr>"
  have i: "Ingress (Spec ?vault) = Some exampleIngress"
    by (simp add: exampleCluster_def)
  have tls: "\<not> IsTLSDisabled noStringMaps (Spec ?vault)"
    by (simp add: IsTLSDisabled_def getListener_def GetVaultConfig_def Unmarshal_def raftConfig_def index_def
          ToStringMap_def ToBool_def exampleCluster_def zeroVaultSpec_def)
  have shape: "Rules (Ingress_Spec exampleIngress) = [] \<and>
      DefaultBackend (Ingress_Spec exampleIngress) = None \<and>
      Annotations exampleIngress =
        Some [''team'' \<mapsto> ''secrets'', ''ingress.kubernetes.io/protocol'' \<mapsto> ''http'']"
    by (simp add: exampleIngress_def)
  have n: "Name ?vault = ''vault''"
    by (simp add: exampleCluster_def)
  from GetIngress_defaults [OF i, of noStringMaps]
  obtain result annotations where
    r: "fst (GetIngress noStringMaps ?vault) = Some result"
    and b: "Rules (Ingress_Spec exampleIngress) = [] \<and>
            DefaultBackend (Ingress_Spec exampleIngress) = None \<longrightarrow>
            DefaultBackend (Ingress_Spec result) =
              Some \<lparr>Service = Some \<lparr>Service_Name = Name ?vault,
                                     Port = \<lparr>Port_Name = '''', Number = 8200\<rparr>\<rparr>,
                    Resource = None\<rparr>"
    and a: "Annotations result = Some annotations"
    and t: "\<not> IsTLSDisabled noStringMaps (Spec ?vault) \<longrightarrow>
         annotations ''nginx.ingress.kubernetes.io/backend-protocol'' = Some ''HTTPS''
       \<and> annotations ''ingress.kubernetes.io/protocol'' = Some ''https''
       \<and> annotations ''ingress.kubernetes.io/secure-backends'' = Some ''true''
       \<and> (\<forall>key. key \<noteq> ''nginx.ingress.kubernetes.io/backend-protocol'' \<and>
                key \<noteq> ''ingress.kubernetes.io/protocol'' \<and>
                key \<noteq> ''ingress.kubernetes.io/secure-backends'' \<longrightarrow>
                annotations key =
                  (case Annotations exampleIngress of None \<Rightarrow> None | Some user \<Rightarrow> user key))"
    by blast
  have backend: "DefaultBackend (Ingress_Spec result) =
              Some \<lparr>Service = Some \<lparr>Service_Name = ''vault'',
                                     Port = \<lparr>Port_Name = '''', Number = 8200\<rparr>\<rparr>,
                    Resource = None\<rparr>"
    using b shape n by simp
  have team: "annotations ''team'' = Some ''secrets''"
  proof -
    have "annotations ''team'' =
        (case Annotations exampleIngress of None \<Rightarrow> None | Some user \<Rightarrow> user ''team'')"
      using t tls by simp
    then show ?thesis by (simp add: exampleIngress_def)
  qed
  show ?thesis
    using r a backend team t tls by simp
qed

end
